theory Spec2Isabelle
  imports Main
begin

section \<open>Data model\<close>

text \<open>
  The tables of \<^verbatim>\<open>schema.sql\<close>, one record per row type and one list per table, rows in
  insertion order, and the list of the triggers that the database has. Columns that no modelled statement reads (timestamps of likes, book
  titles, password hashes, the \<^verbatim>\<open>DECIMAL\<close> column \<^verbatim>\<open>books.average_rating\<close>) are left out. Counters are SQL \<^verbatim>\<open>INT\<close> columns and
  are kept as \<^typ>\<open>int\<close>; identifiers are \<^verbatim>\<open>AUTO_INCREMENT\<close> keys and are kept as \<^typ>\<open>nat\<close>.
\<close>

datatype role = RoleUser | RoleAdmin

datatype user_status = Active | Banned

datatype review_status = Pending | Approved | Rejected | Hidden

datatype comment_status = CApproved | CPending | CRejected

text \<open>The six triggers that \<^verbatim>\<open>schema.sql\<close> declares, by their names.\<close>

datatype trigger_name =
    Trg_update_review_likes_count
  | Trg_update_review_likes_count_delete
  | Trg_update_book_stats_insert
  | Trg_update_book_stats_delete
  | Trg_update_comment_count_insert
  | Trg_update_comment_count_delete

text \<open>
  The text of a comment is a JavaScript string, kept as the list of its UTF-16 code units:
  \<^verbatim>\<open>length\<close> counts them and \<^verbatim>\<open>trim\<close> removes some of them.
\<close>

type_synonym jstring = "nat list"

record privacy =
  p_avatar :: bool
  p_signature :: bool
  p_stats :: bool
  p_history :: bool

text \<open>
  The value of \<^verbatim>\<open>users.privacy_settings\<close> as the profile handler receives it: SQL NULL,
  a text that \<^verbatim>\<open>JSON.parse\<close> turns into a privacy map, or a value on which
  \<^verbatim>\<open>JSON.parse\<close> throws.
\<close>

datatype privacy_col = PrivNull | PrivJson privacy | PrivUnparsable

record user_row =
  u_id :: nat
  u_email :: string
  u_username :: string
  u_role :: role
  u_status :: user_status
  u_avatar_url :: "string option"
  u_bio :: "string option"
  u_signature :: "string option"
  u_privacy_settings :: privacy_col
  u_total_reviews :: int
  u_total_likes_received :: int

record book_row =
  bk_id :: nat
  bk_total_reviews :: int

record review_row =
  rv_id :: nat
  rv_user_id :: nat
  rv_book_id :: nat
  rv_title :: string
  rv_content :: string
  rv_rating :: int
  rv_status :: review_status
  rv_views :: int
  rv_likes_count :: int
  rv_comments_count :: int

record like_row =
  lk_user_id :: nat
  lk_review_id :: nat

record favorite_row =
  fv_user_id :: nat
  fv_review_id :: nat

record comment_row =
  cm_id :: nat
  cm_review_id :: nat
  cm_user_id :: nat
  cm_parent_id :: "nat option"
  cm_content :: jstring
  cm_status :: comment_status

record log_row =
  lg_user_id :: "nat option"
  lg_action :: string
  lg_target_type :: string
  lg_target_id :: nat
  lg_ip_address :: string
  lg_user_agent :: string
  lg_created_at :: int

record db =
  triggers :: "trigger_name list"
  users :: "user_row list"
  books :: "book_row list"
  reviews :: "review_row list"
  review_likes :: "like_row list"
  user_favorites :: "favorite_row list"
  review_comments :: "comment_row list"
  system_logs :: "log_row list"
  next_review_id :: nat
  next_comment_id :: nat

text \<open>
  A JSON response: \<^verbatim>\<open>res.status(n).json({success, message, code, data})\<close>. The
  \<^verbatim>\<open>success\<close> flag is \<^verbatim>\<open>true\<close> exactly on the 2xx replies and the human-readable
  \<^verbatim>\<open>message\<close> is not modelled; \<open>http_code\<close> is the \<^verbatim>\<open>code\<close> property, \<open>None\<close> where the
  handler sets none. The store answers every statement: the \<^verbatim>\<open>catch\<close> branches are
  modelled where a handler can reach them by reading a property of \<^verbatim>\<open>undefined\<close>, and not
  for a statement that the store rejects.
\<close>

datatype 'a reply = Reply (http_status: nat) (http_code: "string option") (http_data: "'a option")

section \<open>Counter triggers (schema.sql)\<close>

definition review_author :: "db \<Rightarrow> nat \<Rightarrow> nat option" where
  \<comment> \<open>\<^verbatim>\<open>(SELECT user_id FROM reviews WHERE id = ?)\<close>, NULL when there is no such row\<close>
  "review_author d rid =
     (case filter (\<lambda>r. rv_id r = rid) (reviews d) of [] \<Rightarrow> None | r # _ \<Rightarrow> Some (rv_user_id r))"

definition update_review_likes_count :: "like_row \<Rightarrow> db \<Rightarrow> db" where
  \<comment> \<open>\<^verbatim>\<open>AFTER INSERT ON review_likes FOR EACH ROW\<close>\<close>
  "update_review_likes_count new d =
     (let d1 = d\<lparr>reviews := map (\<lambda>r. if rv_id r = lk_review_id new
                                        then r\<lparr>rv_likes_count := rv_likes_count r + 1\<rparr> else r)
                                 (reviews d)\<rparr>
      in d1\<lparr>users := map (\<lambda>u. if Some (u_id u) = review_author d1 (lk_review_id new)
                               then u\<lparr>u_total_likes_received := u_total_likes_received u + 1\<rparr>
                               else u)
                        (users d1)\<rparr>)"

definition update_review_likes_count_delete :: "like_row \<Rightarrow> db \<Rightarrow> db" where
  \<comment> \<open>\<^verbatim>\<open>AFTER DELETE ON review_likes FOR EACH ROW\<close>\<close>
  "update_review_likes_count_delete old d =
     (let d1 = d\<lparr>reviews := map (\<lambda>r. if rv_id r = lk_review_id old
                                        then r\<lparr>rv_likes_count := rv_likes_count r - 1\<rparr> else r)
                                 (reviews d)\<rparr>
      in d1\<lparr>users := map (\<lambda>u. if Some (u_id u) = review_author d1 (lk_review_id old)
                               then u\<lparr>u_total_likes_received := u_total_likes_received u - 1\<rparr>
                               else u)
                        (users d1)\<rparr>)"

definition fire :: "trigger_name \<Rightarrow> (db \<Rightarrow> db) \<Rightarrow> db \<Rightarrow> db" where
  \<comment> \<open>the body of a trigger runs after its statement if the database has the trigger\<close>
  "fire t body d = (if t \<in> set (triggers d) then body d else d)"

definition insert_like :: "like_row \<Rightarrow> db \<Rightarrow> db" where
  \<comment> \<open>\<^verbatim>\<open>INSERT INTO review_likes (user_id, review_id) VALUES (?, ?)\<close>: the handler writes the
      row and nothing else; the counters move only if the trigger is there\<close>
  "insert_like new d =
     fire Trg_update_review_likes_count (update_review_likes_count new)
       (d\<lparr>review_likes := review_likes d @ [new]\<rparr>)"

definition delete_likes :: "nat \<Rightarrow> nat \<Rightarrow> db \<Rightarrow> db" where
  \<comment> \<open>\<^verbatim>\<open>DELETE FROM review_likes WHERE user_id = ? AND review_id = ?\<close>; the trigger, if the
      database has it, runs once for each deleted row\<close>
  "delete_likes uid rid d =
     (let hit = (\<lambda>l. lk_user_id l = uid \<and> lk_review_id l = rid)
      in fold (\<lambda>old. fire Trg_update_review_likes_count_delete
                         (update_review_likes_count_delete old))
           (filter hit (review_likes d))
           (d\<lparr>review_likes := filter (\<lambda>l. \<not> hit l) (review_likes d)\<rparr>))"

section \<open>The installer (database/init.js)\<close>

text \<open>
  \<^verbatim>\<open>executeSchemaScript\<close> first sends the whole text of \<^verbatim>\<open>schema.sql\<close> in one query. If that
  query fails it runs the statements one by one and skips every statement whose text
  contains \<^verbatim>\<open>TRIGGER\<close>, \<^verbatim>\<open>VIEW\<close> or \<^verbatim>\<open>DELIMITER\<close>; a statement that fails there is logged
  and the loop goes on. The script is modelled by the kinds of its statements, in file
  order; how the fallback cuts the text into statements is not modelled, since no cut
  makes it run a statement that creates a trigger. The server is a parameter: \<open>accepts\<close>
  says which statements it runs, and a query of several statements runs them up to the
  first one the server rejects.
\<close>

datatype schema_stmt =
    CreateTable string
  | InsertIgnore string
  | Delimiter
  | CreateTrigger trigger_name
  | CreateView string

definition schema_sql :: "schema_stmt list" where
  "schema_sql =
     [CreateTable ''users'', CreateTable ''books'', CreateTable ''reviews'',
      CreateTable ''review_likes'', CreateTable ''user_favorites'',
      CreateTable ''review_comments'', CreateTable ''tags'', CreateTable ''book_tags'',
      CreateTable ''system_logs'', InsertIgnore ''users'', InsertIgnore ''tags'',
      Delimiter,
      CreateTrigger Trg_update_review_likes_count,
      CreateTrigger Trg_update_review_likes_count_delete,
      CreateTrigger Trg_update_book_stats_insert,
      CreateTrigger Trg_update_book_stats_delete,
      CreateTrigger Trg_update_comment_count_insert,
      CreateTrigger Trg_update_comment_count_delete,
      Delimiter,
      CreateView ''review_details'', CreateView ''user_stats'']"

fun skipped :: "schema_stmt \<Rightarrow> bool" where
  \<comment> \<open>\<^verbatim>\<open>statement.includes('TRIGGER') || statement.includes('VIEW') ||
      statement.includes('DELIMITER')\<close>\<close>
  "skipped (CreateTrigger t) = True"
| "skipped (CreateView v) = True"
| "skipped Delimiter = True"
| "skipped s = False"

definition created_triggers :: "schema_stmt list \<Rightarrow> trigger_name list" where
  "created_triggers stmts =
     concat (map (\<lambda>s. case s of CreateTrigger t \<Rightarrow> [t] | _ \<Rightarrow> []) stmts)"

definition executeSchemaScript :: "(schema_stmt \<Rightarrow> bool) \<Rightarrow> schema_stmt list \<Rightarrow> trigger_name list" where
  \<comment> \<open>the triggers that the database has when the function returns\<close>
  "executeSchemaScript accepts script =
     (let ran = takeWhile accepts script
      in if ran = script then created_triggers script
         else created_triggers ran
              @ created_triggers (filter (\<lambda>s. \<not> skipped s \<and> accepts s) script))"

definition mysql_accepts :: "schema_stmt \<Rightarrow> bool" where
  \<comment> \<open>\<^verbatim>\<open>DELIMITER\<close> is a command of the \<^verbatim>\<open>mysql\<close> command-line client and no statement of the
      server, which rejects it as a syntax error; the server runs the other statements\<close>
  "mysql_accepts s = (s \<noteq> Delimiter)"

section \<open>Like service (routes/likes.js)\<close>

record like_data =
  ld_review_id :: nat
  ld_likes_count :: int
  ld_is_liked :: bool

definition like_review :: "nat \<Rightarrow> nat \<Rightarrow> db \<Rightarrow> like_data reply \<times> db" where
  \<comment> \<open>handler of \<^verbatim>\<open>POST /reviews/:reviewId\<close>, after \<^verbatim>\<open>authenticateToken\<close> has set
      \<^verbatim>\<open>req.user.userId\<close>\<close>
  "like_review userId reviewId d =
     (case filter (\<lambda>r. rv_id r = reviewId \<and> rv_status r = Approved) (reviews d) of
        [] \<Rightarrow> (Reply 404 None None, d)
      | review # _ \<Rightarrow>
          if filter (\<lambda>l. lk_user_id l = userId \<and> lk_review_id l = reviewId) (review_likes d) \<noteq> []
          then (Reply 409 None None, d)
          else if rv_user_id review = userId
          then (Reply 400 None None, d)
          else
            (let d' = insert_like \<lparr>lk_user_id = userId, lk_review_id = reviewId\<rparr> d
             in case filter (\<lambda>r. rv_id r = reviewId) (reviews d') of
                  [] \<Rightarrow> (Reply 500 None None, d')
                | updated # _ \<Rightarrow>
                    (Reply 201 None
                       (Some \<lparr>ld_review_id = reviewId, ld_likes_count = rv_likes_count updated,
                              ld_is_liked = True\<rparr>), d')))"

definition unlike_review :: "nat \<Rightarrow> nat \<Rightarrow> db \<Rightarrow> like_data reply \<times> db" where
  \<comment> \<open>handler of \<^verbatim>\<open>DELETE /reviews/:reviewId\<close>\<close>
  "unlike_review userId reviewId d =
     (if filter (\<lambda>l. lk_user_id l = userId \<and> lk_review_id l = reviewId) (review_likes d) = []
      then (Reply 404 None None, d)
      else
        (let d' = delete_likes userId reviewId d
         in (Reply 200 None
               (Some \<lparr>ld_review_id = reviewId,
                      ld_likes_count = (case filter (\<lambda>r. rv_id r = reviewId) (reviews d') of
                                          [] \<Rightarrow> 0 | updated # _ \<Rightarrow> rv_likes_count updated),
                      ld_is_liked = False\<rparr>), d')))"

datatype like_op = Like nat nat | Unlike nat nat

fun run_like_op :: "like_op \<Rightarrow> db \<Rightarrow> db" where
  "run_like_op (Like u r) d = snd (like_review u r d)"
| "run_like_op (Unlike u r) d = snd (unlike_review u r d)"

definition run_like_ops :: "like_op list \<Rightarrow> db \<Rightarrow> db" where
  "run_like_ops ops d = fold run_like_op ops d"

definition count_likes :: "db \<Rightarrow> nat \<Rightarrow> int" where
  \<comment> \<open>\<^verbatim>\<open>SELECT COUNT(*) FROM review_likes WHERE review_id = ?\<close>\<close>
  "count_likes d rid = int (length (filter (\<lambda>l. lk_review_id l = rid) (review_likes d)))"

definition likes_triggers_installed :: "db \<Rightarrow> bool" where
  "likes_triggers_installed d =
     (Trg_update_review_likes_count \<in> set (triggers d)
      \<and> Trg_update_review_likes_count_delete \<in> set (triggers d))"

definition likes_consistent :: "db \<Rightarrow> bool" where
  "likes_consistent d = list_all (\<lambda>r. rv_likes_count r = count_likes d (rv_id r)) (reviews d)"

section \<open>Authentication middleware (middleware/auth.js)\<close>

text \<open>
  The credential verifier \<^verbatim>\<open>jwt.verify(token, secret)\<close> is a parameter \<open>verify\<close> of the
  middleware: it either fails with an error of one of the names the middleware tells
  apart, or returns the decoded payload, of which only \<^verbatim>\<open>userId\<close> is read.
\<close>

datatype jwt_result = TokenExpiredError | JsonWebTokenError | OtherVerifyError | Decoded nat

record req_user =
  ru_userId :: nat
  ru_email :: string
  ru_username :: string
  ru_role :: role
  ru_avatar_url :: "string option"

fun split_space :: "string \<Rightarrow> string list" where
  \<comment> \<open>\<^verbatim>\<open>s.split(' ')\<close>\<close>
  "split_space [] = [[]]"
| "split_space (c # cs) =
     (if c = CHR '' '' then [] # split_space cs
      else (case split_space cs of [] \<Rightarrow> [[c]] | w # ws \<Rightarrow> (c # w) # ws))"

definition bearer_token :: "string option \<Rightarrow> string option" where
  \<comment> \<open>\<^verbatim>\<open>authHeader && authHeader.split(' ')[1]\<close>; \<open>None\<close> stands for every falsy result\<close>
  "bearer_token authHeader =
     (case authHeader of
        None \<Rightarrow> None
      | Some h \<Rightarrow> (case split_space h of
                     _ # t # _ \<Rightarrow> if t = [] then None else Some t
                   | _ \<Rightarrow> None))"

definition user_by_id :: "db \<Rightarrow> nat \<Rightarrow> user_row option" where
  \<comment> \<open>first row of \<^verbatim>\<open>SELECT ... FROM users WHERE id = ?\<close>\<close>
  "user_by_id d uid = (case filter (\<lambda>u. u_id u = uid) (users d) of [] \<Rightarrow> None | u # _ \<Rightarrow> Some u)"

definition req_user_of :: "user_row \<Rightarrow> req_user" where
  "req_user_of user = \<lparr>ru_userId = u_id user, ru_email = u_email user,
     ru_username = u_username user, ru_role = u_role user, ru_avatar_url = u_avatar_url user\<rparr>"

definition authenticateToken ::
    "(string \<Rightarrow> jwt_result) \<Rightarrow> db \<Rightarrow> string option \<Rightarrow> 'a reply + req_user" where
  \<comment> \<open>\<open>Inl\<close>: the middleware answers itself; \<open>Inr\<close>: it sets \<^verbatim>\<open>req.user\<close> and calls \<^verbatim>\<open>next()\<close>\<close>
  "authenticateToken verify d authHeader =
     (case bearer_token authHeader of
        None \<Rightarrow> Inl (Reply 401 (Some ''NO_TOKEN'') None)
      | Some token \<Rightarrow>
          (case verify token of
             TokenExpiredError \<Rightarrow> Inl (Reply 403 (Some ''TOKEN_EXPIRED'') None)
           | JsonWebTokenError \<Rightarrow> Inl (Reply 403 (Some ''MALFORMED_TOKEN'') None)
           | OtherVerifyError \<Rightarrow> Inl (Reply 403 (Some ''INVALID_TOKEN'') None)
           | Decoded userId \<Rightarrow>
               (case user_by_id d userId of
                  None \<Rightarrow> Inl (Reply 403 (Some ''USER_NOT_FOUND'') None)
                | Some user \<Rightarrow>
                    if u_status user \<noteq> Active
                    then Inl (Reply 403 (Some ''ACCOUNT_DISABLED'') None)
                    else Inr (req_user_of user))))"

definition optionalAuth :: "(string \<Rightarrow> jwt_result) \<Rightarrow> db \<Rightarrow> string option \<Rightarrow> req_user option" where
  \<comment> \<open>the value left in \<^verbatim>\<open>req.user\<close> when \<^verbatim>\<open>next()\<close> is called; the middleware never answers itself\<close>
  "optionalAuth verify d authHeader =
     (case bearer_token authHeader of
        None \<Rightarrow> None
      | Some token \<Rightarrow>
          (case verify token of
             Decoded userId \<Rightarrow>
               (case filter (\<lambda>u. u_id u = userId \<and> u_status u = Active) (users d) of
                  [] \<Rightarrow> None
                | user # _ \<Rightarrow> Some (req_user_of user))
           | _ \<Rightarrow> None))"

definition guarded ::
    "(string \<Rightarrow> jwt_result) \<Rightarrow> string option \<Rightarrow> (req_user \<Rightarrow> db \<Rightarrow> 'a reply \<times> db)
       \<Rightarrow> db \<Rightarrow> 'a reply \<times> db" where
  \<comment> \<open>\<^verbatim>\<open>router.METHOD(path, authenticateToken, handler)\<close>: the handler runs only after \<^verbatim>\<open>next()\<close>\<close>
  "guarded verify authHeader handler d =
     (case authenticateToken verify d authHeader of
        Inl resp \<Rightarrow> (resp, d)
      | Inr user \<Rightarrow> handler user d)"

definition with_optional_auth ::
    "(string \<Rightarrow> jwt_result) \<Rightarrow> string option \<Rightarrow> (req_user option \<Rightarrow> db \<Rightarrow> 'a reply \<times> db)
       \<Rightarrow> db \<Rightarrow> 'a reply \<times> db" where
  \<comment> \<open>\<^verbatim>\<open>router.METHOD(path, optionalAuth, handler)\<close>\<close>
  "with_optional_auth verify authHeader handler d = handler (optionalAuth verify d authHeader) d"

section \<open>Batch like status and the POST routes of the likes router (routes/likes.js)\<close>

record batch_item =
  bi_review_id :: nat
  bi_title :: string
  bi_likes_count :: int
  bi_is_liked :: bool

definition batch_status ::
    "(string \<Rightarrow> jwt_result) \<Rightarrow> string option \<Rightarrow> nat list option \<Rightarrow> db \<Rightarrow> batch_item list reply" where
  \<comment> \<open>handler of \<^verbatim>\<open>POST /reviews/batch\<close>; \<open>review_ids = None\<close> is a body whose
      \<^verbatim>\<open>review_ids\<close> is not an array. A missing or rejected token is caught and ignored.\<close>
  "batch_status verify authHeader review_ids d =
     (case review_ids of
        None \<Rightarrow> Reply 400 None None
      | Some ids \<Rightarrow>
          if ids = [] then Reply 400 None None
          else if length ids > 50 then Reply 400 None None
          else
            (let rows = filter (\<lambda>r. rv_id r \<in> set ids) (reviews d);
                 userLikes =
                   (case bearer_token authHeader of
                      None \<Rightarrow> []
                    | Some token \<Rightarrow>
                        (case verify token of
                           Decoded userId \<Rightarrow>
                             filter (\<lambda>l. lk_user_id l = userId \<and> lk_review_id l \<in> set ids)
                               (review_likes d)
                         | _ \<Rightarrow> []));
                 likedReviewIds = set (map lk_review_id userLikes)
             in Reply 200 None
                  (Some (map (\<lambda>r. \<lparr>bi_review_id = rv_id r, bi_title = rv_title r,
                                     bi_likes_count = rv_likes_count r,
                                     bi_is_liked = rv_id r \<in> likedReviewIds\<rparr>) rows))))"

text \<open>
  Express tries the routes of a router in the order of their registration and runs the
  first one whose method and path pattern match; a pattern segment \<^verbatim>\<open>:name\<close> matches any
  non-empty path segment. A handler that answers without calling \<^verbatim>\<open>next()\<close> ends the
  dispatch, and every handler of this router does.
\<close>

datatype seg = Lit string | Param

fun seg_matches :: "seg \<Rightarrow> string \<Rightarrow> bool" where
  "seg_matches (Lit s) x = (x = s)"
| "seg_matches Param x = (x \<noteq> [])"

definition route_matches :: "seg list \<Rightarrow> string list \<Rightarrow> bool" where
  "route_matches pat path = list_all2 seg_matches pat path"

fun dispatch :: "(seg list \<times> 'h) list \<Rightarrow> string list \<Rightarrow> 'h option" where
  "dispatch [] path = None"
| "dispatch ((pat, h) # routes) path =
     (if route_matches pat path then Some h else dispatch routes path)"

datatype likes_post_route = LikeRoute | BatchRoute

definition likes_post_routes :: "(seg list \<times> likes_post_route) list" where
  \<comment> \<open>the two \<^verbatim>\<open>router.post\<close> registrations of likes.js, in file order (lines 23 and 350)\<close>
  "likes_post_routes =
     [([Lit ''reviews'', Param], LikeRoute),
      ([Lit ''reviews'', Lit ''batch''], BatchRoute)]"

definition likes_router_post ::
    "(string \<Rightarrow> nat) \<Rightarrow> (string \<Rightarrow> jwt_result) \<Rightarrow> string list \<Rightarrow> string option
       \<Rightarrow> nat list option \<Rightarrow> db \<Rightarrow> (like_data + batch_item list) reply \<times> db" where
  \<comment> \<open>a POST request to the likes router; \<open>to_id\<close> is the store's reading of the text of
      \<^verbatim>\<open>req.params.reviewId\<close> as a key of the INT column. No route: the 404 of server.js.\<close>
  "likes_router_post to_id verify path authHeader review_ids d =
     (case dispatch likes_post_routes path of
        None \<Rightarrow> (Reply 404 (Some ''NOT_FOUND'') None, d)
      | Some LikeRoute \<Rightarrow>
          (case guarded verify authHeader
                  (\<lambda>user. like_review (ru_userId user) (to_id (path ! 1))) d of
             (r, d') \<Rightarrow> (map_reply Inl r, d'))
      | Some BatchRoute \<Rightarrow> (map_reply Inr (batch_status verify authHeader review_ids d), d))"

section \<open>Favorite service (routes/favorites.js)\<close>

record favorite_data =
  fd_review_id :: nat
  fd_title :: string
  fd_is_favorited :: bool

definition review_by_id :: "db \<Rightarrow> nat \<Rightarrow> review_row option" where
  \<comment> \<open>first row of \<^verbatim>\<open>SELECT ... FROM reviews WHERE id = ?\<close>\<close>
  "review_by_id d rid = (case filter (\<lambda>r. rv_id r = rid) (reviews d) of [] \<Rightarrow> None | r # _ \<Rightarrow> Some r)"

definition favorite_review :: "nat \<Rightarrow> nat \<Rightarrow> db \<Rightarrow> favorite_data reply \<times> db" where
  \<comment> \<open>handler of \<^verbatim>\<open>POST /reviews/:reviewId\<close> of the favorites router\<close>
  "favorite_review userId reviewId d =
     (case filter (\<lambda>r. rv_id r = reviewId \<and> rv_status r = Approved) (reviews d) of
        [] \<Rightarrow> (Reply 404 None None, d)
      | review # _ \<Rightarrow>
          if filter (\<lambda>f. fv_user_id f = userId \<and> fv_review_id f = reviewId) (user_favorites d) \<noteq> []
          then (Reply 409 None None, d)
          else
            (let d' = d\<lparr>user_favorites :=
                          user_favorites d @ [\<lparr>fv_user_id = userId, fv_review_id = reviewId\<rparr>]\<rparr>
             in case review_by_id d' reviewId of
                  None \<Rightarrow> (Reply 500 None None, d')
                | Some reviewInfo \<Rightarrow>
                    (Reply 201 None
                       (Some \<lparr>fd_review_id = reviewId, fd_title = rv_title reviewInfo,
                              fd_is_favorited = True\<rparr>), d')))"

section \<open>Review service (routes/reviews.js)\<close>

record review_body =
  rb_book_id :: "int option"
  rb_title :: "string option"
  rb_content :: "string option"
  rb_rating :: "int option"

definition validate_reviews_create :: "review_body \<Rightarrow> bool" where
  \<comment> \<open>the Joi schema \<^verbatim>\<open>validate.reviews.create\<close>: every key required, \<^verbatim>\<open>Joi.string()\<close> rejects
      the empty string, the title has at most 255 characters, the rating lies in 1..5\<close>
  "validate_reviews_create body =
     (case (rb_book_id body, rb_title body, rb_content body, rb_rating body) of
        (Some book_id, Some title, Some content, Some rating) \<Rightarrow>
          title \<noteq> [] \<and> length title \<le> 255 \<and> content \<noteq> [] \<and> 1 \<le> rating \<and> rating \<le> 5
      | _ \<Rightarrow> False)"

definition update_book_stats_insert :: "review_row \<Rightarrow> db \<Rightarrow> db" where
  \<comment> \<open>\<^verbatim>\<open>AFTER INSERT ON reviews FOR EACH ROW\<close>, without the average\<close>
  "update_book_stats_insert new d =
     d\<lparr>books := map (\<lambda>b. if bk_id b = rv_book_id new
                            then b\<lparr>bk_total_reviews := bk_total_reviews b + 1\<rparr> else b) (books d),
       users := map (\<lambda>u. if u_id u = rv_user_id new
                            then u\<lparr>u_total_reviews := u_total_reviews u + 1\<rparr> else u) (users d)\<rparr>"

definition insert_review :: "nat \<Rightarrow> nat \<Rightarrow> string \<Rightarrow> string \<Rightarrow> int \<Rightarrow> db \<Rightarrow> nat \<times> db" where
  \<comment> \<open>\<^verbatim>\<open>INSERT INTO reviews (user_id, book_id, title, content, rating, status) VALUES
      (?, ?, ?, ?, ?, 'approved')\<close>; the result is \<^verbatim>\<open>insertId\<close> and the new state\<close>
  "insert_review userId bookId title content rating d =
     (let new = \<lparr>rv_id = next_review_id d, rv_user_id = userId, rv_book_id = bookId,
                  rv_title = title, rv_content = content, rv_rating = rating,
                  rv_status = Approved, rv_views = 0, rv_likes_count = 0,
                  rv_comments_count = 0\<rparr>
      in (next_review_id d,
          fire Trg_update_book_stats_insert (update_book_stats_insert new)
            (d\<lparr>reviews := reviews d @ [new], next_review_id := Suc (next_review_id d)\<rparr>)))"

definition review_joined :: "db \<Rightarrow> nat \<Rightarrow> review_row option" where
  \<comment> \<open>first row of \<^verbatim>\<open>SELECT r.*, ... FROM reviews r JOIN books b ON r.book_id = b.id
      JOIN users u ON r.user_id = u.id WHERE r.id = ?\<close>, \<open>None\<close> for \<^verbatim>\<open>undefined\<close>\<close>
  "review_joined d rid =
     (case filter (\<lambda>r. rv_id r = rid \<and> list_ex (\<lambda>b. bk_id b = rv_book_id r) (books d)
                        \<and> list_ex (\<lambda>u. u_id u = rv_user_id r) (users d)) (reviews d) of
        [] \<Rightarrow> None | r # _ \<Rightarrow> Some r)"

definition create_review :: "nat \<Rightarrow> review_body \<Rightarrow> db \<Rightarrow> review_row option reply \<times> db" where
  \<comment> \<open>the handler of \<^verbatim>\<open>POST /\<close>; \<^verbatim>\<open>!x\<close> holds for a missing key, the number 0 and the
      empty string\<close>
  "create_review userId body d =
     (case (rb_book_id body, rb_title body, rb_content body, rb_rating body) of
        (Some book_id, Some title, Some content, Some rating) \<Rightarrow>
          if book_id = 0 \<or> title = [] \<or> content = [] \<or> rating = 0
          then (Reply 400 None None, d)
          else if rating < 1 \<or> rating > 5
          then (Reply 400 None None, d)
          else if filter (\<lambda>b. int (bk_id b) = book_id) (books d) = []
          then (Reply 404 None None, d)
          else if filter (\<lambda>r. rv_user_id r = userId \<and> int (rv_book_id r) = book_id) (reviews d) \<noteq> []
          then (Reply 409 None None, d)
          else
            (case insert_review userId (nat book_id) title content rating d of
               (insertId, d') \<Rightarrow> (Reply 201 None (Some (review_joined d' insertId)), d'))
      | _ \<Rightarrow> (Reply 400 None None, d))"

definition post_review :: "nat \<Rightarrow> review_body \<Rightarrow> db \<Rightarrow> review_row option reply \<times> db" where
  \<comment> \<open>\<^verbatim>\<open>router.post('/', authenticateToken, validate.reviews.create, handler)\<close> after the
      authentication: a body the schema rejects goes to the error handler of server.js\<close>
  "post_review userId body d =
     (if validate_reviews_create body then create_review userId body d
      else (Reply 500 (Some ''INTERNAL_SERVER_ERROR'') None, d))"

record review_update =
  up_title :: "string option"
  up_content :: "string option"
  up_rating :: "int option"

definition update_review :: "req_user \<Rightarrow> nat \<Rightarrow> review_update \<Rightarrow> db \<Rightarrow> review_row option reply \<times> db" where
  \<comment> \<open>the handler of \<^verbatim>\<open>PUT /:id\<close>; a key of the body that is \<^verbatim>\<open>undefined\<close> is \<open>None\<close>\<close>
  "update_review user reviewId body d =
     (case review_by_id d reviewId of
        None \<Rightarrow> (Reply 404 None None, d)
      | Some review \<Rightarrow>
          if rv_user_id review \<noteq> ru_userId user \<and> ru_role user \<noteq> RoleAdmin
          then (Reply 403 None None, d)
          else if (case up_rating body of None \<Rightarrow> False | Some rating \<Rightarrow> rating < 1 \<or> rating > 5)
          then (Reply 400 None None, d)
          else if up_title body = None \<and> up_content body = None \<and> up_rating body = None
          then (Reply 400 None None, d)
          else
            (let set_fields = (\<lambda>r.
                   r\<lparr>rv_title := (case up_title body of None \<Rightarrow> rv_title r | Some t \<Rightarrow> t),
                     rv_content := (case up_content body of None \<Rightarrow> rv_content r | Some c \<Rightarrow> c),
                     rv_rating := (case up_rating body of None \<Rightarrow> rv_rating r | Some x \<Rightarrow> x)\<rparr>);
                 d' = d\<lparr>reviews := map (\<lambda>r. if rv_id r = reviewId then set_fields r else r)
                                       (reviews d)\<rparr>
             in (Reply 200 None (Some (review_joined d' reviewId)), d')))"

definition delete_review :: "req_user \<Rightarrow> nat \<Rightarrow> db \<Rightarrow> unit reply \<times> db" where
  \<comment> \<open>the handler of \<^verbatim>\<open>DELETE /:id\<close>: \<^verbatim>\<open>UPDATE reviews SET status = "hidden" WHERE id = ?\<close>\<close>
  "delete_review user reviewId d =
     (case review_by_id d reviewId of
        None \<Rightarrow> (Reply 404 None None, d)
      | Some review \<Rightarrow>
          if rv_user_id review \<noteq> ru_userId user \<and> ru_role user \<noteq> RoleAdmin
          then (Reply 403 None None, d)
          else (Reply 200 None None,
                d\<lparr>reviews := map (\<lambda>r. if rv_id r = reviewId then r\<lparr>rv_status := Hidden\<rparr> else r)
                                 (reviews d)\<rparr>))"

subsection \<open>View tracker\<close>

record view_data =
  vd_views :: int
  vd_counted :: bool

definition timeWindow :: int where
  \<comment> \<open>\<^verbatim>\<open>30 * 60 * 1000\<close> milliseconds\<close>
  "timeWindow = 30 * 60 * 1000"

definition record_view ::
    "req_user option \<Rightarrow> string \<Rightarrow> string \<Rightarrow> int \<Rightarrow> nat \<Rightarrow> db \<Rightarrow> view_data reply \<times> db" where
  \<comment> \<open>the handler of \<^verbatim>\<open>POST /:id/view\<close>. \<open>now\<close> is the clock in milliseconds, read by
      \<^verbatim>\<open>Date.now()\<close> and by the \<^verbatim>\<open>CURRENT_TIMESTAMP\<close> default of the log row. \<^verbatim>\<open>if (userId)\<close>
      is false for \<^verbatim>\<open>null\<close> and for the number 0.\<close>
  "record_view user ipAddress userAgent now reviewId d =
     (let userId = (case user of None \<Rightarrow> None | Some u \<Rightarrow> Some (ru_userId u))
      in if filter (\<lambda>r. rv_id r = reviewId \<and> rv_status r = Approved) (reviews d) = []
         then (Reply 404 (Some ''REVIEW_NOT_FOUND'') None, d)
         else
           (let windowStart = now - timeWindow;
                recentViews =
                  (case userId of
                     Some uid \<Rightarrow>
                       if uid \<noteq> 0
                       then filter (\<lambda>l. lg_user_id l = Some uid \<and> lg_action l = ''view_review''
                                        \<and> lg_target_id l = reviewId \<and> lg_created_at l > windowStart)
                              (system_logs d)
                       else filter (\<lambda>l. lg_ip_address l = ipAddress \<and> lg_action l = ''view_review''
                                        \<and> lg_target_id l = reviewId \<and> lg_created_at l > windowStart)
                              (system_logs d)
                   | None \<Rightarrow>
                       filter (\<lambda>l. lg_ip_address l = ipAddress \<and> lg_action l = ''view_review''
                                     \<and> lg_target_id l = reviewId \<and> lg_created_at l > windowStart)
                         (system_logs d));
                shouldCount = (recentViews = []);
                d' = (if shouldCount
                      then d\<lparr>reviews := map (\<lambda>r. if rv_id r = reviewId
                                                     then r\<lparr>rv_views := rv_views r + 1\<rparr> else r)
                                             (reviews d),
                             system_logs := system_logs d @
                               [\<lparr>lg_user_id = userId, lg_action = ''view_review'',
                                 lg_target_type = ''review'', lg_target_id = reviewId,
                                 lg_ip_address = ipAddress, lg_user_agent = userAgent,
                                 lg_created_at = now\<rparr>]\<rparr>
                      else d)
            in case review_by_id d' reviewId of
                 None \<Rightarrow> (Reply 500 (Some ''VIEW_RECORD_ERROR'') None, d')
               | Some row \<Rightarrow>
                   (Reply 200 None (Some \<lparr>vd_views = rv_views row, vd_counted = shouldCount\<rparr>),
                    d')))"

definition view_route ::
    "string option \<Rightarrow> string \<Rightarrow> string \<Rightarrow> int \<Rightarrow> nat \<Rightarrow> db \<Rightarrow> view_data reply \<times> db" where
  \<comment> \<open>\<^verbatim>\<open>router.post('/:id/view', async (req, res) => ...)\<close>: the route has no middleware
      before its handler and server.js has none that assigns \<^verbatim>\<open>req.user\<close>, so the handler
      reads \<^verbatim>\<open>undefined\<close> there whatever the \<^verbatim>\<open>Authorization\<close> header is\<close>
  "view_route authHeader ipAddress userAgent now reviewId d =
     record_view None ipAddress userAgent now reviewId d"

section \<open>Profile view (routes/profile.js)\<close>

record profile_user =
  pu_id :: nat
  pu_username :: string
  pu_avatar_url :: "string option"
  pu_bio :: "string option"
  pu_signature :: "string option"
  pu_privacy_settings :: "privacy option"

record profile_stats =
  st_reviews_count :: int
  st_likes_received :: int
  st_favorites_count :: int
  st_favorites_received :: int
  st_comments_count :: int

record profile_history =
  hs_reviews :: "nat list"
  hs_favorites :: "nat list"
  hs_comments :: "nat list"

record profile_data =
  pd_user :: profile_user
  pd_stats :: "profile_stats option"
  pd_history :: "profile_history option"
  pd_is_own_profile :: bool

definition req_user_id :: "req_user \<Rightarrow> nat option" where
  \<comment> \<open>\<^verbatim>\<open>req.user.id\<close>: the object that \<^verbatim>\<open>optionalAuth\<close> stores has the properties \<^verbatim>\<open>userId\<close>,
      \<^verbatim>\<open>email\<close>, \<^verbatim>\<open>username\<close>, \<^verbatim>\<open>role\<close> and \<^verbatim>\<open>avatar_url\<close> and no property \<^verbatim>\<open>id\<close>, so the
      read gives \<^verbatim>\<open>undefined\<close>\<close>
  "req_user_id user = None"

definition isOwnProfile :: "req_user option \<Rightarrow> nat \<Rightarrow> bool" where
  \<comment> \<open>\<^verbatim>\<open>req.user && req.user.id == targetUserId\<close>, as a truth value; \<^verbatim>\<open>undefined == x\<close> is
      false for the text \<open>x\<close> of a path parameter\<close>
  "isOwnProfile user targetUserId =
     (case user of
        None \<Rightarrow> False
      | Some u \<Rightarrow> (case req_user_id u of None \<Rightarrow> False | Some i \<Rightarrow> i = targetUserId))"

definition default_privacy :: privacy where
  "default_privacy = \<lparr>p_avatar = True, p_signature = True, p_stats = True, p_history = True\<rparr>"

definition parse_privacy :: "privacy_col \<Rightarrow> privacy" where
  \<comment> \<open>the defaults stay when the column is NULL or \<^verbatim>\<open>JSON.parse\<close> throws\<close>
  "parse_privacy c = (case c of PrivJson p \<Rightarrow> p | _ \<Rightarrow> default_privacy)"

definition profile_stats_of :: "db \<Rightarrow> user_row \<Rightarrow> nat \<Rightarrow> profile_stats" where
  "profile_stats_of d user targetUserId =
     \<lparr>st_reviews_count = u_total_reviews user,
      st_likes_received = u_total_likes_received user,
      st_favorites_count =
        int (length (filter (\<lambda>f. fv_user_id f = targetUserId) (user_favorites d))),
      st_favorites_received =
        int (length (concat (map (\<lambda>f. filter (\<lambda>r. rv_id r = fv_review_id f
                                                   \<and> rv_user_id r = targetUserId) (reviews d))
                                 (user_favorites d)))),
      st_comments_count =
        int (length (filter (\<lambda>c. cm_user_id c = targetUserId \<and> cm_status c = CApproved)
                       (review_comments d)))\<rparr>"

definition profile_history_of :: "db \<Rightarrow> nat \<Rightarrow> profile_history" where
  \<comment> \<open>the three \<^verbatim>\<open>ORDER BY created_at DESC LIMIT 10\<close> queries, as the ids of their rows; a
      table lists its rows oldest first\<close>
  "profile_history_of d targetUserId =
     (let has_book = (\<lambda>r. list_ex (\<lambda>b. bk_id b = rv_book_id r) (books d));
          has_user = (\<lambda>r. list_ex (\<lambda>u. u_id u = rv_user_id r) (users d))
      in \<lparr>hs_reviews =
             take 10 (rev (map rv_id (filter (\<lambda>r. rv_user_id r = targetUserId
                                               \<and> rv_status r = Approved \<and> has_book r) (reviews d)))),
           hs_favorites =
             take 10 (rev (concat (map (\<lambda>f. map rv_id (filter (\<lambda>r. rv_id r = fv_review_id f
                                                   \<and> rv_status r = Approved \<and> has_book r \<and> has_user r)
                                                (reviews d)))
                                     (filter (\<lambda>f. fv_user_id f = targetUserId) (user_favorites d))))),
           hs_comments =
             take 10 (rev (concat (map (\<lambda>c. map (\<lambda>r. cm_id c)
                                                (filter (\<lambda>r. rv_id r = cm_review_id c \<and> has_book r)
                                                   (reviews d)))
                                     (filter (\<lambda>c. cm_user_id c = targetUserId
                                                  \<and> cm_status c = CApproved) (review_comments d)))))\<rparr>)"

definition get_profile :: "req_user option \<Rightarrow> nat \<Rightarrow> db \<Rightarrow> profile_data reply" where
  \<comment> \<open>the handler of \<^verbatim>\<open>GET /:userId\<close>, after \<^verbatim>\<open>optionalAuth\<close>\<close>
  "get_profile viewer targetUserId d =
     (case filter (\<lambda>u. u_id u = targetUserId \<and> u_status u = Active) (users d) of
        [] \<Rightarrow> Reply 404 None None
      | user # _ \<Rightarrow>
          (let own = isOwnProfile viewer targetUserId;
               privacySettings = parse_privacy (u_privacy_settings user);
               canViewStats = (own \<or> p_stats privacySettings);
               canViewHistory = (own \<or> p_history privacySettings)
           in Reply 200 None
                (Some \<lparr>pd_user =
                         \<lparr>pu_id = u_id user, pu_username = u_username user,
                          pu_avatar_url = u_avatar_url user, pu_bio = u_bio user,
                          pu_signature = (if own \<or> p_signature privacySettings
                                          then u_signature user else None),
                          pu_privacy_settings = (if own then Some privacySettings else None)\<rparr>,
                       pd_stats = (if canViewStats
                                   then Some (profile_stats_of d user targetUserId) else None),
                       pd_history = (if canViewHistory
                                     then Some (profile_history_of d targetUserId) else None),
                       pd_is_own_profile = own\<rparr>)))"

section \<open>Comment service (routes/comments.js)\<close>

definition is_space :: "nat \<Rightarrow> bool" where
  \<comment> \<open>the code units that \<^verbatim>\<open>String.prototype.trim\<close> removes: the white space of ECMAScript
      (TAB, VT, FF, U+FEFF and the space separators U+0020, U+00A0, U+1680, U+2000 to
      U+200A, U+202F, U+205F, U+3000) and its line terminators (LF, CR, U+2028, U+2029)\<close>
  "is_space c =
     (c \<in> set [0x09, 0x0B, 0x0C, 0xFEFF, 0x20, 0xA0, 0x1680, 0x202F, 0x205F, 0x3000,
                0x0A, 0x0D, 0x2028, 0x2029]
      \<or> (0x2000 \<le> c \<and> c \<le> 0x200A))"

definition js_trim :: "jstring \<Rightarrow> jstring" where
  \<comment> \<open>\<^verbatim>\<open>s.trim()\<close>\<close>
  "js_trim s = rev (dropWhile is_space (rev (dropWhile is_space s)))"

definition comment_by_id :: "db \<Rightarrow> nat \<Rightarrow> comment_row option" where
  \<comment> \<open>first row of \<^verbatim>\<open>SELECT ... FROM review_comments WHERE id = ?\<close>\<close>
  "comment_by_id d cid =
     (case filter (\<lambda>c. cm_id c = cid) (review_comments d) of [] \<Rightarrow> None | c # _ \<Rightarrow> Some c)"

definition update_comment_count_insert :: "comment_row \<Rightarrow> db \<Rightarrow> db" where
  \<comment> \<open>\<^verbatim>\<open>AFTER INSERT ON review_comments FOR EACH ROW\<close>\<close>
  "update_comment_count_insert new d =
     d\<lparr>reviews := map (\<lambda>r. if rv_id r = cm_review_id new
                              then r\<lparr>rv_comments_count := rv_comments_count r + 1\<rparr> else r)
                     (reviews d)\<rparr>"

definition update_comment_count_delete :: "comment_row \<Rightarrow> db \<Rightarrow> db" where
  \<comment> \<open>\<^verbatim>\<open>AFTER DELETE ON review_comments FOR EACH ROW\<close>\<close>
  "update_comment_count_delete old d =
     d\<lparr>reviews := map (\<lambda>r. if rv_id r = cm_review_id old
                              then r\<lparr>rv_comments_count := rv_comments_count r - 1\<rparr> else r)
                     (reviews d)\<rparr>"

definition insert_comment :: "nat \<Rightarrow> nat \<Rightarrow> nat option \<Rightarrow> jstring \<Rightarrow> db \<Rightarrow> nat \<times> db" where
  \<comment> \<open>\<^verbatim>\<open>INSERT INTO review_comments (review_id, user_id, [parent_id,] content)\<close> with the
      status default; the result is \<^verbatim>\<open>insertId\<close> and the new state\<close>
  "insert_comment reviewId userId parentId content d =
     (let new = \<lparr>cm_id = next_comment_id d, cm_review_id = reviewId, cm_user_id = userId,
                  cm_parent_id = parentId, cm_content = content, cm_status = CApproved\<rparr>
      in (next_comment_id d,
          fire Trg_update_comment_count_insert (update_comment_count_insert new)
            (d\<lparr>review_comments := review_comments d @ [new],
               next_comment_id := Suc (next_comment_id d)\<rparr>)))"

definition comment_joined :: "db \<Rightarrow> nat \<Rightarrow> comment_row option" where
  \<comment> \<open>first row of \<^verbatim>\<open>SELECT rc.*, ... FROM review_comments rc JOIN users u ON rc.user_id = u.id
      WHERE rc.id = ?\<close>\<close>
  "comment_joined d cid =
     (case filter (\<lambda>c. cm_id c = cid \<and> list_ex (\<lambda>u. u_id u = cm_user_id c) (users d))
             (review_comments d) of
        [] \<Rightarrow> None | c # _ \<Rightarrow> Some c)"

definition create_comment :: "nat \<Rightarrow> nat \<Rightarrow> jstring option \<Rightarrow> db \<Rightarrow> comment_row option reply \<times> db" where
  \<comment> \<open>the handler of \<^verbatim>\<open>POST /reviews/:reviewId\<close> of the comments router\<close>
  "create_comment userId reviewId content_opt d =
     (case content_opt of
        None \<Rightarrow> (Reply 400 None None, d)
      | Some content \<Rightarrow>
          if content = [] \<or> js_trim content = [] then (Reply 400 None None, d)
          else if length content > 1000 then (Reply 400 None None, d)
          else
            (case review_by_id d reviewId of
               None \<Rightarrow> (Reply 404 None None, d)
             | Some review \<Rightarrow>
                 if rv_status review \<noteq> Approved then (Reply 403 None None, d)
                 else
                   (case insert_comment reviewId userId None (js_trim content) d of
                      (insertId, d') \<Rightarrow> (Reply 201 None (Some (comment_joined d' insertId)), d'))))"

definition parent_with_review :: "db \<Rightarrow> nat \<Rightarrow> (nat \<times> review_status) option" where
  \<comment> \<open>first row of \<^verbatim>\<open>SELECT rc.id, rc.review_id, r.status as review_status FROM review_comments rc
      JOIN reviews r ON rc.review_id = r.id WHERE rc.id = ? AND rc.status = 'approved'\<close>, as
      the pair of \<^verbatim>\<open>review_id\<close> and \<^verbatim>\<open>review_status\<close>\<close>
  "parent_with_review d parentId =
     (case concat (map (\<lambda>rc. map (\<lambda>r. (cm_review_id rc, rv_status r))
                                (filter (\<lambda>r. rv_id r = cm_review_id rc) (reviews d)))
                     (filter (\<lambda>rc. cm_id rc = parentId \<and> cm_status rc = CApproved)
                        (review_comments d))) of
        [] \<Rightarrow> None | p # _ \<Rightarrow> Some p)"

definition reply_comment :: "nat \<Rightarrow> nat \<Rightarrow> jstring option \<Rightarrow> db \<Rightarrow> comment_row option reply \<times> db" where
  \<comment> \<open>the handler of \<^verbatim>\<open>POST /:id/reply\<close>\<close>
  "reply_comment userId parentId content_opt d =
     (case content_opt of
        None \<Rightarrow> (Reply 400 None None, d)
      | Some content \<Rightarrow>
          if content = [] \<or> js_trim content = [] then (Reply 400 None None, d)
          else if length content > 1000 then (Reply 400 None None, d)
          else
            (case parent_with_review d parentId of
               None \<Rightarrow> (Reply 404 None None, d)
             | Some (review_id, review_status) \<Rightarrow>
                 if review_status \<noteq> Approved then (Reply 403 None None, d)
                 else
                   (case insert_comment review_id userId (Some parentId) (js_trim content) d of
                      (insertId, d') \<Rightarrow> (Reply 201 None (Some (comment_joined d' insertId)), d'))))"

definition count_replies :: "db \<Rightarrow> nat \<Rightarrow> nat" where
  \<comment> \<open>\<^verbatim>\<open>SELECT COUNT(*) as count FROM review_comments WHERE parent_id = ?\<close>\<close>
  "count_replies d cid = length (filter (\<lambda>c. cm_parent_id c = Some cid) (review_comments d))"

definition delete_comment_rows :: "nat \<Rightarrow> db \<Rightarrow> db" where
  \<comment> \<open>\<^verbatim>\<open>DELETE FROM review_comments WHERE id = ?\<close>; the trigger, if the database has it,
      runs once for each deleted row. The handler runs the statement only for a comment
      without replies, so the cascade on \<^verbatim>\<open>parent_id\<close> deletes nothing more.\<close>
  "delete_comment_rows cid d =
     fold (\<lambda>old. fire Trg_update_comment_count_delete (update_comment_count_delete old))
       (filter (\<lambda>c. cm_id c = cid) (review_comments d))
       (d\<lparr>review_comments := filter (\<lambda>c. cm_id c \<noteq> cid) (review_comments d)\<rparr>)"

definition delete_comment :: "req_user \<Rightarrow> nat \<Rightarrow> db \<Rightarrow> nat reply \<times> db" where
  \<comment> \<open>the handler of \<^verbatim>\<open>DELETE /:id\<close>; the data of the 409 reply is \<^verbatim>\<open>replies_count\<close>\<close>
  "delete_comment user commentId d =
     (case comment_by_id d commentId of
        None \<Rightarrow> (Reply 404 None None, d)
      | Some comment \<Rightarrow>
          if cm_user_id comment \<noteq> ru_userId user \<and> ru_role user \<noteq> RoleAdmin
          then (Reply 403 None None, d)
          else if count_replies d commentId > 0
          then (Reply 409 None (Some (count_replies d commentId)), d)
          else (Reply 200 None None, delete_comment_rows commentId d))"

section \<open>Properties named by the specification\<close>

definition spec_prior_view :: "nat option \<Rightarrow> string \<Rightarrow> int \<Rightarrow> nat \<Rightarrow> log_row \<Rightarrow> bool" where
  \<comment> \<open>the specification's words: a logged view event of the same review, by the same
      actor when one is resolved and from the same source IP otherwise, inside the
      trailing window of 30 minutes\<close>
  "spec_prior_view actor ip now reviewId l =
     (lg_action l = ''view_review'' \<and> lg_target_id l = reviewId
      \<and> now - 30 * 60 * 1000 < lg_created_at l
      \<and> (case actor of Some uid \<Rightarrow> lg_user_id l = Some uid | None \<Rightarrow> lg_ip_address l = ip))"

definition parents_stored :: "db \<Rightarrow> bool" where
  \<comment> \<open>every \<^verbatim>\<open>parent_id\<close> is NULL or the id of a stored comment of the same review\<close>
  "parents_stored d =
     list_all (\<lambda>c. case cm_parent_id c of
                      None \<Rightarrow> True
                    | Some p \<Rightarrow> list_ex (\<lambda>q. cm_id q = p \<and> cm_review_id q = cm_review_id c)
                                 (review_comments d))
       (review_comments d)"

section \<open>A small database\<close>

text \<open>
  A database that the installer has set up on a MySQL server and that the handlers have
  filled: two users with a review each, a like, a favorite, a comment and a reply. The
  counters that only triggers move are at 0.
\<close>

definition alice :: user_row where
  "alice = \<lparr>u_id = 1, u_email = ''alice@example.org'', u_username = ''alice'', u_role = RoleUser,
     u_status = Active, u_avatar_url = Some ''/uploads/avatars/a.png'', u_bio = None,
     u_signature = Some ''hello'',
     u_privacy_settings = PrivJson \<lparr>p_avatar = False, p_signature = False, p_stats = False,
                                     p_history = True\<rparr>,
     u_total_reviews = 0, u_total_likes_received = 0\<rparr>"

definition bob :: user_row where
  "bob = \<lparr>u_id = 2, u_email = ''bob@example.org'', u_username = ''bob'', u_role = RoleUser,
     u_status = Active, u_avatar_url = None, u_bio = None, u_signature = None,
     u_privacy_settings = PrivNull, u_total_reviews = 0, u_total_likes_received = 0\<rparr>"

definition carol :: user_row where
  "carol = \<lparr>u_id = 3, u_email = ''carol@example.org'', u_username = ''carol'', u_role = RoleUser,
     u_status = Banned, u_avatar_url = None, u_bio = None, u_signature = None,
     u_privacy_settings = PrivNull, u_total_reviews = 0, u_total_likes_received = 0\<rparr>"

definition review10 :: review_row where
  "review10 = \<lparr>rv_id = 10, rv_user_id = 1, rv_book_id = 5, rv_title = ''Dune'',
     rv_content = ''Sand'', rv_rating = 5, rv_status = Approved, rv_views = 7,
     rv_likes_count = 0, rv_comments_count = 0\<rparr>"

definition review11 :: review_row where
  "review11 = \<lparr>rv_id = 11, rv_user_id = 2, rv_book_id = 5, rv_title = ''Dune again'',
     rv_content = ''More sand'', rv_rating = 4, rv_status = Approved, rv_views = 0,
     rv_likes_count = 0, rv_comments_count = 0\<rparr>"

definition comment1 :: comment_row where
  "comment1 = \<lparr>cm_id = 1, cm_review_id = 10, cm_user_id = 2, cm_parent_id = None,
     cm_content = [110, 105, 99, 101], cm_status = CApproved\<rparr>"

definition comment2 :: comment_row where
  "comment2 = \<lparr>cm_id = 2, cm_review_id = 10, cm_user_id = 1, cm_parent_id = Some 1,
     cm_content = [116, 104, 120], cm_status = CApproved\<rparr>"

definition example_db :: db where
  "example_db = \<lparr>triggers = executeSchemaScript mysql_accepts schema_sql,
     users = [alice, bob, carol],
     books = [\<lparr>bk_id = 5, bk_total_reviews = 0\<rparr>],
     reviews = [review10, review11],
     review_likes = [\<lparr>lk_user_id = 2, lk_review_id = 10\<rparr>],
     user_favorites = [\<lparr>fv_user_id = 1, fv_review_id = 10\<rparr>],
     review_comments = [comment1, comment2],
     system_logs = [],
     next_review_id = 12, next_comment_id = 3\<rparr>"

definition example_body :: review_body where
  "example_body = \<lparr>rb_book_id = Some 5, rb_title = Some ''Again'', rb_content = Some ''Text'',
     rb_rating = Some 3\<rparr>"

definition example_verify :: "string \<Rightarrow> jwt_result" where
  \<comment> \<open>a verifier that accepts the tokens \<^verbatim>\<open>a\<close>, \<^verbatim>\<open>b\<close> and \<^verbatim>\<open>c\<close> of the three users\<close>
  "example_verify token =
     (if token = ''a'' then Decoded 1 else if token = ''b'' then Decoded 2
      else if token = ''c'' then Decoded 3 else JsonWebTokenError)"

section \<open>Helper lemmas\<close>

lemmas example_defs = example_db_def alice_def bob_def carol_def review10_def review11_def
  comment1_def comment2_def

lemma first_match_refine:
  "filter P xs = x # rest \<Longrightarrow> Q x \<Longrightarrow> \<exists>rest'. filter (\<lambda>y. P y \<and> Q y) xs = x # rest'"
proof (induction xs)
  case Nil
  then show ?case by simp
next
  case (Cons a xs)
  then show ?case by (cases "P a") auto
qed

lemma list_ex_filter: "list_ex P xs \<longleftrightarrow> filter P xs \<noteq> []"
  by (induction xs) auto

lemma review_by_id_approved:
  assumes "review_by_id d rid = Some r" and "rv_status r = Approved"
  shows "\<exists>rest. filter (\<lambda>x. rv_id x = rid \<and> rv_status x = Approved) (reviews d) = r # rest"
proof -
  from assms(1) obtain rest where "filter (\<lambda>x. rv_id x = rid) (reviews d) = r # rest"
    by (auto simp: review_by_id_def split: list.splits)
  from first_match_refine [OF this, of "\<lambda>x. rv_status x = Approved"] assms(2) show ?thesis
    by simp
qed

lemma review_by_id_map:
  assumes "\<And>x. rv_id (f x) = rv_id x"
  shows "review_by_id (d\<lparr>reviews := map f (reviews d)\<rparr>) rid = map_option f (review_by_id d rid)"
proof -
  have "filter (\<lambda>r. rv_id r = rid) (map f xs) = map f (filter (\<lambda>r. rv_id r = rid) xs)" for xs
    by (induction xs) (simp_all add: assms)
  then show ?thesis by (simp add: review_by_id_def split: list.splits)
qed

lemma review_by_id_SomeD:
  assumes "review_by_id d rid = Some r"
  shows "rv_id r = rid" and "r \<in> set (reviews d)"
proof -
  from assms obtain rest where "filter (\<lambda>x. rv_id x = rid) (reviews d) = r # rest"
    by (auto simp: review_by_id_def split: list.splits)
  then have "r \<in> set (filter (\<lambda>x. rv_id x = rid) (reviews d))" by simp
  then show "rv_id r = rid" and "r \<in> set (reviews d)" by simp_all
qed

subsection \<open>Review creation and soft deletion\<close>

lemma post_review_conflict:
  assumes "r \<in> set (reviews d)" and "rv_user_id r = u" and "rv_book_id r = b"
    and "rb_book_id body = Some (int b)"
  shows "snd (post_review u body d) = d"
    and "validate_reviews_create body \<Longrightarrow> b \<noteq> 0 \<Longrightarrow> list_ex (\<lambda>k. bk_id k = b) (books d)
           \<Longrightarrow> fst (post_review u body d) = Reply 409 None None"
proof -
  have dup: "filter (\<lambda>x. rv_user_id x = u \<and> int (rv_book_id x) = int b) (reviews d) \<noteq> []"
    using assms(1-3) by (auto simp: filter_empty_conv)
  show "snd (post_review u body d) = d"
    using dup assms(4)
    by (auto simp: post_review_def create_review_def split: option.splits)
  show "fst (post_review u body d) = Reply 409 None None"
    if "validate_reviews_create body" "b \<noteq> 0" "list_ex (\<lambda>k. bk_id k = b) (books d)"
  proof -
    from that(3) have bk: "filter (\<lambda>k. int (bk_id k) = int b) (books d) \<noteq> []"
      by (simp add: list_ex_filter)
    show ?thesis
      using dup bk that(1,2) assms(4)
      by (auto simp: post_review_def create_review_def validate_reviews_create_def
          split: option.splits)
  qed
qed

lemma soft_delete_keeps_slot:
  assumes "r \<in> set (reviews d)"
  shows "\<exists>r' \<in> set (reviews (snd (delete_review user rid d))).
            rv_user_id r' = rv_user_id r \<and> rv_book_id r' = rv_book_id r"
proof -
  let ?f = "\<lambda>x. if rv_id x = rid then x\<lparr>rv_status := Hidden\<rparr> else x"
  have "?f r \<in> ?f ` set (reviews d)" using assms by (rule imageI)
  then have in_map: "?f r \<in> set (map ?f (reviews d))" by (simp only: set_map)
  have same: "rv_user_id (?f r) = rv_user_id r \<and> rv_book_id (?f r) = rv_book_id r" by simp
  have "\<exists>r' \<in> set (map ?f (reviews d)).
            rv_user_id r' = rv_user_id r \<and> rv_book_id r' = rv_book_id r"
    using in_map same by (rule bexI [rotated])
  moreover have "\<exists>r' \<in> set (reviews d).
            rv_user_id r' = rv_user_id r \<and> rv_book_id r' = rv_book_id r"
    using assms by (intro bexI [of _ r]) simp_all
  ultimately show ?thesis
    by (simp add: delete_review_def split: option.splits del: set_map)
qed

lemma books_delete_review: "books (snd (delete_review user rid d)) = books d"
  by (simp add: delete_review_def split: option.splits)

subsection \<open>Parent links of comments\<close>

lemma review_comments_insert_comment:
  "review_comments (snd (insert_comment rid u parent content d)) =
     review_comments d @ [\<lparr>cm_id = next_comment_id d, cm_review_id = rid, cm_user_id = u,
                  cm_parent_id = parent, cm_content = content, cm_status = CApproved\<rparr>]"
  by (simp add: insert_comment_def Let_def fire_def update_comment_count_insert_def)

lemma parent_with_review_found:
  assumes "comment_by_id d p = Some parent" and "cm_status parent = CApproved"
    and "review_by_id d (cm_review_id parent) = Some r"
  shows "parent_with_review d p = Some (cm_review_id parent, rv_status r)"
proof -
  from assms(1) obtain rest where "filter (\<lambda>c. cm_id c = p) (review_comments d) = parent # rest"
    by (auto simp: comment_by_id_def split: list.splits)
  from first_match_refine [OF this, of "\<lambda>c. cm_status c = CApproved"] assms(2) obtain rest' where
    c: "filter (\<lambda>c. cm_id c = p \<and> cm_status c = CApproved) (review_comments d) = parent # rest'"
    by auto
  from assms(3) obtain rs where
    r: "filter (\<lambda>x. rv_id x = cm_review_id parent) (reviews d) = r # rs"
    by (auto simp: review_by_id_def split: list.splits)
  show ?thesis by (simp add: parent_with_review_def c r)
qed

lemma parents_stored_append:
  assumes "parents_stored d"
    and "case cm_parent_id new of None \<Rightarrow> True
         | Some p \<Rightarrow> list_ex (\<lambda>q. cm_id q = p \<and> cm_review_id q = cm_review_id new)
                      (review_comments d @ [new])"
    and "review_comments d' = review_comments d @ [new]"
  shows "parents_stored d'"
  using assms
  by (auto simp: parents_stored_def list_all_iff list_ex_iff split: option.splits)

lemma parents_stored_insert_comment:
  assumes "parents_stored d"
    and "case parent of None \<Rightarrow> True
         | Some p \<Rightarrow> list_ex (\<lambda>q. cm_id q = p \<and> cm_review_id q = rid) (review_comments d)"
  shows "parents_stored (snd (insert_comment rid u parent content d))"
proof (rule parents_stored_append [OF assms(1)])
  show "review_comments (snd (insert_comment rid u parent content d)) =
      review_comments d @ [\<lparr>cm_id = next_comment_id d, cm_review_id = rid, cm_user_id = u,
                  cm_parent_id = parent, cm_content = content, cm_status = CApproved\<rparr>]"
    by (rule review_comments_insert_comment)
  show "case cm_parent_id \<lparr>cm_id = next_comment_id d, cm_review_id = rid, cm_user_id = u,
                  cm_parent_id = parent, cm_content = content, cm_status = CApproved\<rparr> of
          None \<Rightarrow> True
        | Some p \<Rightarrow> list_ex (\<lambda>q. cm_id q = p \<and> cm_review_id q = cm_review_id \<lparr>cm_id = next_comment_id d, cm_review_id = rid, cm_user_id = u,
                  cm_parent_id = parent, cm_content = content, cm_status = CApproved\<rparr>)
             (review_comments d @ [\<lparr>cm_id = next_comment_id d, cm_review_id = rid, cm_user_id = u,
                  cm_parent_id = parent, cm_content = content, cm_status = CApproved\<rparr>])"
    using assms(2) by (auto simp: list_ex_iff split: option.splits)
qed

lemma parent_with_review_SomeD:
  assumes "parent_with_review d p = Some (rid, st)"
  shows "list_ex (\<lambda>q. cm_id q = p \<and> cm_review_id q = rid \<and> cm_status q = CApproved)
           (review_comments d)"
proof -
  let ?rows = "concat (map (\<lambda>rc. map (\<lambda>r. (cm_review_id rc, rv_status r))
                                (filter (\<lambda>r. rv_id r = cm_review_id rc) (reviews d)))
                     (filter (\<lambda>rc. cm_id rc = p \<and> cm_status rc = CApproved)
                        (review_comments d)))"
  from assms obtain rest where "?rows = (rid, st) # rest"
    by (auto simp: parent_with_review_def split: list.splits)
  then have "(rid, st) \<in> set ?rows" by simp
  then show ?thesis by (auto simp: list_ex_iff)
qed

lemma parents_stored_reply_comment:
  assumes "parents_stored d"
  shows "parents_stored (snd (reply_comment u p content d))"
proof (cases "\<exists>c rid. content = Some c \<and> c \<noteq> [] \<and> js_trim c \<noteq> [] \<and> \<not> length c > 1000
          \<and> parent_with_review d p = Some (rid, Approved)")
  case True
  then obtain c rid where c: "content = Some c" "c \<noteq> []" "js_trim c \<noteq> []" "\<not> length c > 1000"
    and pw: "parent_with_review d p = Some (rid, Approved)" by blast
  from parent_with_review_SomeD [OF pw]
  have "list_ex (\<lambda>q. cm_id q = p \<and> cm_review_id q = rid) (review_comments d)"
    by (auto simp: list_ex_iff)
  then have "parents_stored (snd (insert_comment rid u (Some p) (js_trim c) d))"
    by (intro parents_stored_insert_comment [OF assms]) simp
  then show ?thesis using c pw by (simp add: reply_comment_def case_prod_beta)
next
  case False
  then have "snd (reply_comment u p content d) = d"
    by (auto simp: reply_comment_def case_prod_beta split: option.splits)
  then show ?thesis using assms by simp
qed

lemma parents_stored_create_comment:
  assumes "parents_stored d"
  shows "parents_stored (snd (create_comment u rid content d))"
proof -
  have "parents_stored (snd (insert_comment rid u None c d))" for c
    by (intro parents_stored_insert_comment [OF assms]) simp
  then show ?thesis
    using assms by (auto simp: create_comment_def case_prod_beta split: option.splits)
qed

lemma review_comments_delete_comment_rows:
  "review_comments (delete_comment_rows cid d) = filter (\<lambda>c. cm_id c \<noteq> cid) (review_comments d)"
proof -
  have rc: "review_comments (fold (\<lambda>old. fire t (update_comment_count_delete old)) xs d0)
      = review_comments d0" for t xs d0
    by (induction xs arbitrary: d0) (simp_all add: fire_def update_comment_count_delete_def)
  show ?thesis by (simp add: delete_comment_rows_def rc)
qed

lemma parents_stored_delete_comment:
  assumes "parents_stored d"
  shows "parents_stored (snd (delete_comment user cid d))"
proof (cases "snd (delete_comment user cid d) = d")
  case True
  then show ?thesis using assms by simp
next
  case False
  then have del: "snd (delete_comment user cid d) = delete_comment_rows cid d"
    and none: "count_replies d cid = 0"
    by (auto simp: delete_comment_def split: option.splits if_splits)
  from none have np: "\<forall>c \<in> set (review_comments d). cm_parent_id c \<noteq> Some cid"
    by (simp add: count_replies_def filter_empty_conv)
  show ?thesis
    unfolding del parents_stored_def review_comments_delete_comment_rows list_all_iff
  proof (intro ballI)
    fix c assume "c \<in> set (filter (\<lambda>c. cm_id c \<noteq> cid) (review_comments d))"
    then have c: "c \<in> set (review_comments d)" by simp
    show "case cm_parent_id c of None \<Rightarrow> True
          | Some p \<Rightarrow> list_ex (\<lambda>q. cm_id q = p \<and> cm_review_id q = cm_review_id c)
                       (filter (\<lambda>c. cm_id c \<noteq> cid) (review_comments d))"
    proof (cases "cm_parent_id c")
      case None
      then show ?thesis by simp
    next
      case (Some p)
      with np c have "p \<noteq> cid" by auto
      moreover from assms c Some
      have "list_ex (\<lambda>q. cm_id q = p \<and> cm_review_id q = cm_review_id c) (review_comments d)"
        by (auto simp: parents_stored_def list_all_iff)
      ultimately show ?thesis using Some by (auto simp: list_ex_iff)
    qed
  qed
qed

subsection \<open>The like counter with and without the triggers\<close>

lemma installer_creates_no_trigger:
  "\<not> accepts Delimiter \<Longrightarrow> executeSchemaScript accepts schema_sql = []"
  by (simp add: executeSchemaScript_def schema_sql_def created_triggers_def Let_def)

lemma triggers_example_db: "triggers example_db = []"
  by (simp add: example_db_def installer_creates_no_trigger mysql_accepts_def)

lemma triggers_update_review_likes_count:
  "triggers (update_review_likes_count new d) = triggers d"
  by (simp add: update_review_likes_count_def Let_def)

lemma triggers_update_review_likes_count_delete:
  "triggers (update_review_likes_count_delete old d) = triggers d"
  by (simp add: update_review_likes_count_delete_def Let_def)

lemma insert_like_with_trigger:
  "Trg_update_review_likes_count \<in> set (triggers d) \<Longrightarrow>
   insert_like new d = update_review_likes_count new (d\<lparr>review_likes := review_likes d @ [new]\<rparr>)"
  by (simp add: insert_like_def fire_def)

lemma insert_like_without_trigger:
  "Trg_update_review_likes_count \<notin> set (triggers d) \<Longrightarrow>
   insert_like new d = d\<lparr>review_likes := review_likes d @ [new]\<rparr>"
  by (simp add: insert_like_def fire_def)

lemma fold_fire:
  assumes "t \<in> set (triggers d0)" and "\<And>old x. triggers (f old x) = triggers x"
  shows "fold (\<lambda>old. fire t (f old)) xs d0 = fold f xs d0"
  using assms(1)
proof (induction xs arbitrary: d0)
  case Nil
  then show ?case by simp
next
  case (Cons a xs)
  then show ?case by (simp add: fire_def assms(2))
qed

lemma delete_likes_with_trigger:
  assumes "Trg_update_review_likes_count_delete \<in> set (triggers d)"
  shows "delete_likes uid rid d =
     fold update_review_likes_count_delete
       (filter (\<lambda>l. lk_user_id l = uid \<and> lk_review_id l = rid) (review_likes d))
       (d\<lparr>review_likes := filter (\<lambda>l. \<not> (lk_user_id l = uid \<and> lk_review_id l = rid))
                                (review_likes d)\<rparr>)"
proof -
  have "Trg_update_review_likes_count_delete
      \<in> set (triggers (d\<lparr>review_likes := filter (\<lambda>l. \<not> (lk_user_id l = uid \<and> lk_review_id l = rid))
                                (review_likes d)\<rparr>))"
    using assms by simp
  from fold_fire [OF this, of update_review_likes_count_delete]
  show ?thesis
    by (simp add: delete_likes_def Let_def triggers_update_review_likes_count_delete)
qed

lemma triggers_fold_delete_trigger:
  "triggers (fold update_review_likes_count_delete ls d) = triggers d"
  by (induction ls arbitrary: d) (simp_all add: triggers_update_review_likes_count_delete)

lemma reviews_insert_like:
  "Trg_update_review_likes_count \<in> set (triggers d) \<Longrightarrow>
   reviews (insert_like new d) =
     map (\<lambda>r. if rv_id r = lk_review_id new then r\<lparr>rv_likes_count := rv_likes_count r + 1\<rparr> else r) (reviews d)"
  by (simp add: insert_like_with_trigger update_review_likes_count_def Let_def)

lemma review_likes_insert_like: "review_likes (insert_like new d) = review_likes d @ [new]"
  by (simp add: insert_like_def fire_def update_review_likes_count_def Let_def)

lemma triggers_insert_like: "triggers (insert_like new d) = triggers d"
  by (simp add: insert_like_def fire_def triggers_update_review_likes_count)

lemma likes_consistent_insert_like:
  "Trg_update_review_likes_count \<in> set (triggers d) \<Longrightarrow>
   likes_consistent d \<Longrightarrow> likes_consistent (insert_like new d)"
  by (auto simp: likes_consistent_def count_likes_def reviews_insert_like review_likes_insert_like
        list_all_iff)

lemma reviews_delete_trigger:
  "reviews (update_review_likes_count_delete old d) =
     map (\<lambda>r. if rv_id r = lk_review_id old then r\<lparr>rv_likes_count := rv_likes_count r - 1\<rparr> else r) (reviews d)"
  by (simp add: update_review_likes_count_delete_def Let_def)

lemma review_likes_delete_trigger:
  "review_likes (update_review_likes_count_delete old d) = review_likes d"
  by (simp add: update_review_likes_count_delete_def Let_def)

lemma review_likes_fold_delete_trigger:
  "review_likes (fold update_review_likes_count_delete ls d) = review_likes d"
  by (induction ls arbitrary: d) (simp_all add: review_likes_delete_trigger)

lemma reviews_fold_delete_trigger:
  "\<forall>l \<in> set ls. lk_review_id l = rid \<Longrightarrow>
   reviews (fold update_review_likes_count_delete ls d) =
     map (\<lambda>r. if rv_id r = rid then r\<lparr>rv_likes_count := rv_likes_count r - int (length ls)\<rparr> else r)
       (reviews d)"
proof (induction ls arbitrary: d)
  case Nil
  then show ?case by (simp add: map_idI)
next
  case (Cons l ls)
  then show ?case
    by (simp add: reviews_delete_trigger o_def)
qed

lemma length_filter_split:
  "length (filter P xs) = length (filter (\<lambda>x. P x \<and> Q x) xs) + length (filter (\<lambda>x. P x \<and> \<not> Q x) xs)"
  by (induction xs) auto

lemma likes_consistent_delete_likes:
  assumes "likes_consistent d" and t: "Trg_update_review_likes_count_delete \<in> set (triggers d)"
  shows "likes_consistent (delete_likes uid rid d)"
proof -
  let ?hit = "\<lambda>l. lk_user_id l = uid \<and> lk_review_id l = rid"
  let ?gone = "filter ?hit (review_likes d)"
  let ?d0 = "d\<lparr>review_likes := filter (\<lambda>l. \<not> ?hit l) (review_likes d)\<rparr>"
  have all: "\<forall>l \<in> set ?gone. lk_review_id l = rid" by simp
  have rv: "reviews (delete_likes uid rid d) =
      map (\<lambda>r. if rv_id r = rid then r\<lparr>rv_likes_count := rv_likes_count r - int (length ?gone)\<rparr> else r)
        (reviews d)"
    using reviews_fold_delete_trigger [OF all, of ?d0] by (simp add: delete_likes_with_trigger [OF t])
  have lk: "review_likes (delete_likes uid rid d) = filter (\<lambda>l. \<not> ?hit l) (review_likes d)"
    by (simp add: delete_likes_with_trigger [OF t] review_likes_fold_delete_trigger)
  have same: "count_likes (delete_likes uid rid d) k = count_likes d k" if "k \<noteq> rid" for k
    using that unfolding count_likes_def lk by (simp add: conj_commute) (metis (mono_tags, lifting) filter_cong)
  have less: "count_likes (delete_likes uid rid d) rid = count_likes d rid - int (length ?gone)"
  proof -
    have "length (filter (\<lambda>l. lk_review_id l = rid) (review_likes d)) =
          length (filter (\<lambda>l. lk_review_id l = rid \<and> lk_user_id l = uid) (review_likes d)) +
          length (filter (\<lambda>l. lk_review_id l = rid \<and> \<not> lk_user_id l = uid) (review_likes d))"
      by (rule length_filter_split)
    moreover have "filter (\<lambda>l. lk_review_id l = rid \<and> lk_user_id l = uid) (review_likes d) = ?gone"
      by (rule filter_cong) auto
    moreover have "filter (\<lambda>l. lk_review_id l = rid) (filter (\<lambda>l. \<not> ?hit l) (review_likes d))
        = filter (\<lambda>l. lk_review_id l = rid \<and> \<not> lk_user_id l = uid) (review_likes d)"
      by (simp, rule filter_cong) auto
    ultimately show ?thesis unfolding count_likes_def lk by simp
  qed
  have old: "rv_likes_count r = count_likes d (rv_id r)" if "r \<in> set (reviews d)" for r
    using assms that by (simp add: likes_consistent_def list_all_iff)
  show ?thesis
    unfolding likes_consistent_def list_all_iff rv
  proof (intro ballI)
    fix r' assume "r' \<in> set (map (\<lambda>r. if rv_id r = rid
        then r\<lparr>rv_likes_count := rv_likes_count r - int (length ?gone)\<rparr> else r) (reviews d))"
    then obtain r where r: "r \<in> set (reviews d)"
      and r': "r' = (if rv_id r = rid then r\<lparr>rv_likes_count := rv_likes_count r - int (length ?gone)\<rparr> else r)"
      by auto
    show "rv_likes_count r' = count_likes (delete_likes uid rid d) (rv_id r')"
    proof (cases "rv_id r = rid")
      case True
      then show ?thesis using r' old [OF r] less by simp
    next
      case False
      then show ?thesis using r' old [OF r] same by simp
    qed
  qed
qed

lemma triggers_like_review: "triggers (snd (like_review u r d)) = triggers d"
  by (simp add: like_review_def Let_def triggers_insert_like split: list.splits)

lemma triggers_unlike_review: "triggers (snd (unlike_review u r d)) = triggers d"
proof (cases "Trg_update_review_likes_count_delete \<in> set (triggers d)")
  case True
  then show ?thesis
    by (simp add: unlike_review_def Let_def delete_likes_with_trigger triggers_fold_delete_trigger)
next
  case False
  have "triggers (fold (\<lambda>old. fire Trg_update_review_likes_count_delete
                               (update_review_likes_count_delete old)) xs d0) = triggers d0"
    if "Trg_update_review_likes_count_delete \<notin> set (triggers d0)" for xs d0
    using that by (induction xs arbitrary: d0) (simp_all add: fire_def)
  with False show ?thesis by (simp add: unlike_review_def Let_def delete_likes_def)
qed

lemma likes_consistent_like_review:
  "likes_triggers_installed d \<Longrightarrow> likes_consistent d
     \<Longrightarrow> likes_consistent (snd (like_review u r d))"
  by (auto simp: like_review_def Let_def likes_consistent_insert_like likes_triggers_installed_def
        split: list.splits)

lemma likes_consistent_unlike_review:
  "likes_triggers_installed d \<Longrightarrow> likes_consistent d
     \<Longrightarrow> likes_consistent (snd (unlike_review u r d))"
  by (simp add: unlike_review_def Let_def likes_consistent_delete_likes
        likes_triggers_installed_def)

lemma run_like_op_keeps:
  assumes "likes_triggers_installed d" and "likes_consistent d"
  shows "likes_triggers_installed (run_like_op op d) \<and> likes_consistent (run_like_op op d)"
  using assms
  by (cases op)
     (simp_all add: likes_consistent_like_review likes_consistent_unlike_review
        likes_triggers_installed_def triggers_like_review triggers_unlike_review)

text \<open>
  On a database that has the two triggers of \<^verbatim>\<open>review_likes\<close>, the like counter follows the
  rows: what C1 says holds there.
\<close>

lemma likes_count_matches_rows_with_triggers:
  assumes "likes_triggers_installed d" and "likes_consistent d"
    and "r \<in> set (reviews (run_like_ops ops d))"
  shows "rv_likes_count r = count_likes (run_like_ops ops d) (rv_id r)"
proof -
  have "likes_triggers_installed (run_like_ops ops d) \<and> likes_consistent (run_like_ops ops d)"
    using assms(1,2) unfolding run_like_ops_def
  proof (induction ops arbitrary: d)
    case Nil
    then show ?case by simp
  next
    case (Cons op ops)
    from run_like_op_keeps [OF Cons.prems] Cons.IH show ?case by simp
  qed
  with assms(3) show ?thesis by (simp add: likes_consistent_def list_all_iff)
qed

text \<open>
  Without the insert trigger every like that succeeds leaves the counter behind the
  rows.
\<close>

lemma like_without_trigger_breaks_counter:
  assumes "Trg_update_review_likes_count \<notin> set (triggers d)" and "likes_consistent d"
    and "http_status (fst (like_review u rid d)) = 201"
  shows "\<not> likes_consistent (snd (like_review u rid d))"
proof -
  let ?d' = "d\<lparr>review_likes := review_likes d @ [\<lparr>lk_user_id = u, lk_review_id = rid\<rparr>]\<rparr>"
  from assms(3) have d': "snd (like_review u rid d) = ?d'"
    by (auto simp: like_review_def Let_def insert_like_without_trigger [OF assms(1)]
          split: list.splits if_splits)
  from assms(3) obtain r rest where
    "filter (\<lambda>x. rv_id x = rid \<and> rv_status x = Approved) (reviews d) = r # rest"
    by (cases "filter (\<lambda>x. rv_id x = rid \<and> rv_status x = Approved) (reviews d)")
       (auto simp: like_review_def)
  then have "r \<in> set (filter (\<lambda>x. rv_id x = rid \<and> rv_status x = Approved) (reviews d))"
    by simp
  then have r: "r \<in> set (reviews d)" "rv_id r = rid" by simp_all
  from assms(2) r have "rv_likes_count r = count_likes d rid"
    by (auto simp: likes_consistent_def list_all_iff)
  moreover have "count_likes ?d' rid = count_likes d rid + 1"
    by (simp add: count_likes_def)
  ultimately have "rv_likes_count r \<noteq> count_likes ?d' (rv_id r)" using r by simp
  with r(1) show ?thesis unfolding d' by (auto simp: likes_consistent_def list_all_iff)
qed

section \<open>Claims\<close>

text \<open>
  C1. The claim is what the like handler announces for its \<^verbatim>\<open>INSERT\<close> (the trigger will
  update the counter) and what the installer reports (automatic statistics triggers).
  The installer creates no trigger on a MySQL server, and the handlers write no counter.
  On the installed database user 1, active and logged in, likes the approved review 11 of
  user 2, which has no like and the counter 0: the reply is 201 with \<^verbatim>\<open>likes_count = 0\<close>,
  the table holds one like row of review 11 and the row of review 11 is as it was.
\<close>

theorem likes_count_stale_on_installed_database:
  "executeSchemaScript mysql_accepts schema_sql = []
   \<and> triggers example_db = executeSchemaScript mysql_accepts schema_sql
   \<and> count_likes example_db 11 = 0 \<and> review_by_id example_db 11 = Some review11
   \<and> rv_likes_count review11 = 0
   \<and> fst (guarded example_verify (Some ''Bearer a'')
              (\<lambda>user. like_review (ru_userId user) 11) example_db)
       = Reply 201 None (Some \<lparr>ld_review_id = 11, ld_likes_count = 0, ld_is_liked = True\<rparr>)
   \<and> count_likes (snd (guarded example_verify (Some ''Bearer a'')
                          (\<lambda>user. like_review (ru_userId user) 11) example_db)) 11 = 1
   \<and> review_by_id (snd (guarded example_verify (Some ''Bearer a'')
                           (\<lambda>user. like_review (ru_userId user) 11) example_db)) 11
       = Some review11"
proof -
  have t: "executeSchemaScript mysql_accepts schema_sql = []"
    by (simp add: installer_creates_no_trigger mysql_accepts_def)
  have g: "guarded example_verify (Some ''Bearer a'')
              (\<lambda>user. like_review (ru_userId user) 11) example_db
      = (Reply 201 None (Some \<lparr>ld_review_id = 11, ld_likes_count = 0, ld_is_liked = True\<rparr>),
         example_db\<lparr>review_likes := [\<lparr>lk_user_id = 2, lk_review_id = 10\<rparr>,
                                       \<lparr>lk_user_id = 1, lk_review_id = 11\<rparr>]\<rparr>)"
    by (simp add: guarded_def authenticateToken_def bearer_token_def example_verify_def
        user_by_id_def req_user_of_def like_review_def insert_like_def fire_def t Let_def
        example_defs)
  show ?thesis
    unfolding g by (simp add: t count_likes_def review_by_id_def example_defs)
qed

text \<open>
  C2, as amended. For every user \<open>u\<close> and every approved review \<open>r\<close> written by \<open>u\<close>: the
  like operation by \<open>u\<close> on \<open>r\<close> inserts no like row and answers 400, with no \<^verbatim>\<open>code\<close>
  property, unless a like row of \<open>u\<close> on \<open>r\<close> is already stored, when it answers 409; the
  favorite operation by \<open>u\<close> on \<open>r\<close> answers 201 and inserts the favorite row unless
  \<open>u\<close> has already favorited \<open>r\<close>, when it answers 409 and inserts nothing.
\<close>

theorem self_like_rejected_self_favorite_allowed:
  assumes "review_by_id d rid = Some r" and "rv_status r = Approved" and "rv_user_id r = u"
  shows "like_review u rid d =
           (Reply (if list_ex (\<lambda>l. lk_user_id l = u \<and> lk_review_id l = rid) (review_likes d)
                   then 409 else 400) None None, d)
       \<and> favorite_review u rid d =
           (if list_ex (\<lambda>f. fv_user_id f = u \<and> fv_review_id f = rid) (user_favorites d)
            then (Reply 409 None None, d)
            else (Reply 201 None
                    (Some \<lparr>fd_review_id = rid, fd_title = rv_title r, fd_is_favorited = True\<rparr>),
                  d\<lparr>user_favorites := user_favorites d @ [\<lparr>fv_user_id = u, fv_review_id = rid\<rparr>]\<rparr>))"
proof -
  from review_by_id_approved [OF assms(1,2)] obtain rest where
    f: "filter (\<lambda>x. rv_id x = rid \<and> rv_status x = Approved) (reviews d) = r # rest" ..
  have rb: "review_by_id (d\<lparr>user_favorites := fs\<rparr>) rid = Some r" for fs
    using assms(1) by (simp add: review_by_id_def)
  show ?thesis
    using f assms(3) by (simp add: like_review_def favorite_review_def list_ex_filter rb Let_def)
qed

theorem self_like_rejected_self_favorite_allowed_witness:
  "review_by_id example_db 11 = Some review11 \<and> rv_status review11 = Approved
   \<and> rv_user_id review11 = 2
   \<and> like_review 2 11 example_db = (Reply 400 None None, example_db)
   \<and> fst (favorite_review 2 11 example_db) =
       Reply 201 None (Some \<lparr>fd_review_id = 11, fd_title = ''Dune again'', fd_is_favorited = True\<rparr>)
   \<and> user_favorites (snd (favorite_review 2 11 example_db)) =
       [\<lparr>fv_user_id = 1, fv_review_id = 10\<rparr>, \<lparr>fv_user_id = 2, fv_review_id = 11\<rparr>]"
proof -
  have h1: "review_by_id example_db 11 = Some review11"
    by (simp add: review_by_id_def example_defs)
  have h2: "rv_status review11 = Approved" by (simp add: review11_def)
  have h3: "rv_user_id review11 = 2" by (simp add: review11_def)
  have l: "\<not> list_ex (\<lambda>l. lk_user_id l = 2 \<and> lk_review_id l = 11) (review_likes example_db)"
    by (simp add: example_defs)
  have f: "\<not> list_ex (\<lambda>f. fv_user_id f = 2 \<and> fv_review_id f = 11) (user_favorites example_db)"
    by (simp add: example_defs)
  have t: "rv_title review11 = ''Dune again''" by (simp add: review11_def)
  have uf: "user_favorites example_db = [\<lparr>fv_user_id = 1, fv_review_id = 10\<rparr>]"
    by (simp add: example_db_def)
  show ?thesis
    using self_like_rejected_self_favorite_allowed [OF h1 h2 h3] h1 h2 h3 l f t uf by simp
qed

text \<open>
  C2 as stated fails: user 1 wrote the approved review 10 and has favorited it; the
  favorite operation by user 1 on review 10 answers 409 and inserts nothing. The 400 of
  the like operation carries no \<^verbatim>\<open>SELF_LIKE_FORBIDDEN\<close> code.
\<close>

theorem favorite_twice_counterexample:
  "review_by_id example_db 10 = Some review10 \<and> rv_status review10 = Approved
   \<and> rv_user_id review10 = 1
   \<and> favorite_review 1 10 example_db = (Reply 409 None None, example_db)
   \<and> http_code (fst (like_review 1 10 example_db)) \<noteq> Some ''SELF_LIKE_FORBIDDEN''"
  by (simp add: review_by_id_def favorite_review_def like_review_def example_defs)

text \<open>
  C3. The claim promises an anonymous caller of the batch like-status operation a per-id
  map. The request \<^verbatim>\<open>POST /reviews/batch\<close> without an \<^verbatim>\<open>Authorization\<close> header is answered
  by the route \<^verbatim>\<open>/reviews/:reviewId\<close>, registered first and guarded by \<^verbatim>\<open>authenticateToken\<close>:
  the reply is 401 \<^verbatim>\<open>NO_TOKEN\<close>, whatever the database holds.
\<close>

theorem batch_route_shadowed:
  "likes_router_post to_id verify [''reviews'', ''batch''] None (Some [10, 11, 12]) d =
     (Reply 401 (Some ''NO_TOKEN'') None, d)"
  by (simp add: likes_router_post_def likes_post_routes_def route_matches_def guarded_def
      authenticateToken_def bearer_token_def)

text \<open>
  The batch handler itself, were it reached, does what C3 says: 400 for an empty or an
  oversized list, and for 1 to 50 ids and no credential one item for each stored review
  among the ids, none of them liked.
\<close>

lemma batch_status_anonymous:
  assumes "ids \<noteq> []" and "length ids \<le> 50"
  shows "\<exists>items. batch_status verify None (Some ids) d = Reply 200 None (Some items)
           \<and> map bi_review_id items = filter (\<lambda>i. i \<in> set ids) (map rv_id (reviews d))
           \<and> (\<forall>i \<in> set items. \<not> bi_is_liked i)"
  using assms by (simp add: batch_status_def bearer_token_def Let_def filter_map o_def)

lemma batch_status_bounds:
  "ids = [] \<or> length ids > 50 \<Longrightarrow> batch_status verify h (Some ids) d = Reply 400 None None"
  by (auto simp: batch_status_def)

text \<open>
  C4. A user \<open>u\<close> has a stored review for book \<open>b\<close>, in any moderation status. A second
  review creation by \<open>u\<close> for \<open>b\<close>, with a body that the request schema accepts, answers
  409 and inserts no row. The same holds in the state after the soft deletion of the
  first review, which only sets its status to \<^verbatim>\<open>hidden\<close>: the slot of (user, book) is not
  freed.
\<close>

theorem second_review_conflicts:
  assumes "r \<in> set (reviews d)" and "rv_user_id r = u" and "rv_book_id r = b"
    and "rb_book_id body = Some (int b)" and "validate_reviews_create body"
    and "b \<noteq> 0" and "list_ex (\<lambda>k. bk_id k = b) (books d)"
  shows "post_review u body d = (Reply 409 None None, d)
       \<and> post_review u body (snd (delete_review user (rv_id r) d)) =
           (Reply 409 None None, snd (delete_review user (rv_id r) d))
       \<and> (review_by_id d (rv_id r) = Some r
             \<and> (rv_user_id r = ru_userId user \<or> ru_role user = RoleAdmin)
           \<longrightarrow> review_by_id (snd (delete_review user (rv_id r) d)) (rv_id r)
                 = Some (r\<lparr>rv_status := Hidden\<rparr>))"
proof -
  have one: "post_review u body d = (Reply 409 None None, d)"
    using post_review_conflict [OF assms(1-4)] assms(5-7) by (simp add: prod_eq_iff)
  from soft_delete_keeps_slot [OF assms(1), of user "rv_id r"] obtain r' where
    r': "r' \<in> set (reviews (snd (delete_review user (rv_id r) d)))"
      "rv_user_id r' = u" "rv_book_id r' = b"
    using assms(2,3) by auto
  have two: "post_review u body (snd (delete_review user (rv_id r) d)) =
           (Reply 409 None None, snd (delete_review user (rv_id r) d))"
    using post_review_conflict [OF r' assms(4)] assms(5-7)
    by (simp add: prod_eq_iff books_delete_review)
  have three: "review_by_id (snd (delete_review user (rv_id r) d)) (rv_id r)
                 = Some (r\<lparr>rv_status := Hidden\<rparr>)"
    if "review_by_id d (rv_id r) = Some r" "rv_user_id r = ru_userId user \<or> ru_role user = RoleAdmin"
  proof -
    have "review_by_id (d\<lparr>reviews := map (\<lambda>x. if rv_id x = rv_id r then x\<lparr>rv_status := Hidden\<rparr> else x)
                                       (reviews d)\<rparr>) (rv_id r)
          = map_option (\<lambda>x. if rv_id x = rv_id r then x\<lparr>rv_status := Hidden\<rparr> else x)
              (review_by_id d (rv_id r))"
      by (rule review_by_id_map) simp
    then show ?thesis using that by (auto simp: delete_review_def)
  qed
  show ?thesis using one two three by blast
qed

theorem second_review_conflicts_witness:
  "review10 \<in> set (reviews example_db) \<and> rv_user_id review10 = 1 \<and> rv_book_id review10 = 5
   \<and> rb_book_id example_body = Some (int 5) \<and> validate_reviews_create example_body
   \<and> (5::nat) \<noteq> 0 \<and> list_ex (\<lambda>k. bk_id k = 5) (books example_db)
   \<and> post_review 1 example_body example_db = (Reply 409 None None, example_db)
   \<and> review_by_id (snd (delete_review (req_user_of alice) 10 example_db)) 10
       = Some (review10\<lparr>rv_status := Hidden\<rparr>)
   \<and> fst (post_review 1 example_body (snd (delete_review (req_user_of alice) 10 example_db)))
       = Reply 409 None None"
proof -
  have h1: "review10 \<in> set (reviews example_db)" by (simp add: example_db_def)
  have h2: "rv_user_id review10 = 1" by (simp add: review10_def)
  have h3: "rv_book_id review10 = 5" by (simp add: review10_def)
  have h4: "rb_book_id example_body = Some (int 5)" by (simp add: example_body_def)
  have h5: "validate_reviews_create example_body"
    by (simp add: validate_reviews_create_def example_body_def)
  have h6: "(5::nat) \<noteq> 0" by simp
  have h7: "list_ex (\<lambda>k. bk_id k = 5) (books example_db)" by (simp add: example_db_def)
  have i: "rv_id review10 = 10" by (simp add: review10_def)
  have g: "review_by_id example_db 10 = Some review10
      \<and> (rv_user_id review10 = ru_userId (req_user_of alice) \<or> ru_role (req_user_of alice) = RoleAdmin)"
    by (simp add: review_by_id_def req_user_of_def example_defs)
  note c = second_review_conflicts [OF h1 h2 h3 h4 h5 h6 h7, of "req_user_of alice", unfolded i]
  from c have one: "post_review 1 example_body example_db = (Reply 409 None None, example_db)"
    by (rule conjunct1)
  from c have two: "fst (post_review 1 example_body (snd (delete_review (req_user_of alice) 10 example_db)))
       = Reply 409 None None"
    by simp
  from c g have three: "review_by_id (snd (delete_review (req_user_of alice) 10 example_db)) 10
       = Some (review10\<lparr>rv_status := Hidden\<rparr>)"
    by blast
  show ?thesis
    using h1 h2 h3 h4 h5 h6 h7 one two three by (intro conjI)
qed

text \<open>
  C5, as amended. A viewer who is not the profile owner (anonymous, or logged in as another
  user) sees the signature, the statistics block and the history block of an active user
  exactly when the stored privacy flag of that field is true; the avatar is part of the
  reply whatever the \<^verbatim>\<open>avatar\<close> flag says.
\<close>

theorem profile_privacy_for_other_viewers:
  assumes "user_by_id d t = Some user" and "u_status user = Active"
    and "u_privacy_settings user = PrivJson p"
    and "map_option ru_userId viewer \<noteq> Some t"
  shows "\<exists>pd. get_profile viewer t d = Reply 200 None (Some pd)
          \<and> pu_avatar_url (pd_user pd) = u_avatar_url user
          \<and> pu_signature (pd_user pd) = (if p_signature p then u_signature user else None)
          \<and> pd_stats pd = (if p_stats p then Some (profile_stats_of d user t) else None)
          \<and> pd_history pd = (if p_history p then Some (profile_history_of d t) else None)"
proof -
  from assms(1) obtain rest where "filter (\<lambda>x. u_id x = t) (users d) = user # rest"
    by (auto simp: user_by_id_def split: list.splits)
  from first_match_refine [OF this, of "\<lambda>x. u_status x = Active"] assms(2) obtain rest' where
    f: "filter (\<lambda>x. u_id x = t \<and> u_status x = Active) (users d) = user # rest'" by auto
  have own: "\<not> isOwnProfile viewer t"
    by (simp add: isOwnProfile_def req_user_id_def split: option.splits)
  show ?thesis
    using f own assms(3) by (simp add: get_profile_def Let_def parse_privacy_def)
qed

theorem profile_privacy_for_other_viewers_witness:
  "user_by_id example_db 1 = Some alice \<and> u_status alice = Active
   \<and> u_privacy_settings alice
       = PrivJson \<lparr>p_avatar = False, p_signature = False, p_stats = False, p_history = True\<rparr>
   \<and> map_option ru_userId (Some (req_user_of bob)) \<noteq> Some 1
   \<and> (\<exists>pd. get_profile (Some (req_user_of bob)) 1 example_db = Reply 200 None (Some pd)
          \<and> pu_avatar_url (pd_user pd) = Some ''/uploads/avatars/a.png''
          \<and> pu_signature (pd_user pd) = None
          \<and> pd_stats pd = None
          \<and> pd_history pd = Some (profile_history_of example_db 1))"
proof -
  have h1: "user_by_id example_db 1 = Some alice" by (simp add: user_by_id_def example_defs)
  have h2: "u_status alice = Active" by (simp add: alice_def)
  have h3: "u_privacy_settings alice
       = PrivJson \<lparr>p_avatar = False, p_signature = False, p_stats = False, p_history = True\<rparr>"
    by (simp add: alice_def)
  have h4: "map_option ru_userId (Some (req_user_of bob)) \<noteq> Some 1"
    by (simp add: req_user_of_def bob_def)
  have a: "u_avatar_url alice = Some ''/uploads/avatars/a.png''" by (simp add: alice_def)
  show ?thesis
    using profile_privacy_for_other_viewers [OF h1 h2 h3 h4] h1 h2 h3 h4 a by simp
qed

text \<open>
  C5 as stated fails: user 1 has stored the flag \<^verbatim>\<open>avatar = false\<close>, and an anonymous viewer
  of the profile of user 1 still receives the avatar.
\<close>

theorem avatar_flag_ignored_counterexample:
  "user_by_id example_db 1 = Some alice \<and> u_status alice = Active
   \<and> u_privacy_settings alice
       = PrivJson \<lparr>p_avatar = False, p_signature = False, p_stats = False, p_history = True\<rparr>
   \<and> map_option (\<lambda>pd. pu_avatar_url (pd_user pd)) (http_data (get_profile None 1 example_db))
       = Some (Some ''/uploads/avatars/a.png'')"
  by (simp add: user_by_id_def get_profile_def isOwnProfile_def req_user_id_def parse_privacy_def
      Let_def example_defs)

text \<open>
  The owner is not recognised: \<^verbatim>\<open>optionalAuth\<close> stores no \<^verbatim>\<open>id\<close> in \<^verbatim>\<open>req.user\<close>, so user 1,
  logged in and viewing the own profile, is told \<^verbatim>\<open>is_own_profile = false\<close> and receives
  neither the hidden signature nor the hidden statistics block.
\<close>

lemma profile_owner_not_recognised:
  "optionalAuth example_verify example_db (Some ''Bearer a'') = Some (req_user_of alice)
   \<and> map_option pd_is_own_profile
         (http_data (get_profile (Some (req_user_of alice)) 1 example_db)) = Some False
   \<and> map_option pd_stats (http_data (get_profile (Some (req_user_of alice)) 1 example_db))
       = Some None
   \<and> map_option (\<lambda>pd. pu_signature (pd_user pd))
         (http_data (get_profile (Some (req_user_of alice)) 1 example_db)) = Some None"
  by (simp add: optionalAuth_def bearer_token_def example_verify_def get_profile_def
      isOwnProfile_def req_user_id_def parse_privacy_def Let_def example_defs)

text \<open>
  C6. The claim keys the deduplication by the actor when one is resolved. The handler reads
  \<^verbatim>\<open>req.user\<close> for that, but its route registers no authentication middleware and nothing
  else sets \<^verbatim>\<open>req.user\<close>: every caller is keyed by the IP address. User 2, with a token
  that \<^verbatim>\<open>optionalAuth\<close> would resolve, views review 10 from one address and, 1000 seconds
  later, from another: the second view is counted again (7, 8, 9) and both events are
  logged without a user.
\<close>

theorem view_route_never_resolves_the_actor:
  "optionalAuth example_verify example_db (Some ''Bearer b'') = Some (req_user_of bob)
   \<and> rv_views review10 = 7
   \<and> fst (view_route (Some ''Bearer b'') ''10.0.0.1'' ''curl'' 5000000 10 example_db)
       = Reply 200 None (Some \<lparr>vd_views = 8, vd_counted = True\<rparr>)
   \<and> fst (view_route (Some ''Bearer b'') ''10.0.0.9'' ''curl'' 6000000 10
            (snd (view_route (Some ''Bearer b'') ''10.0.0.1'' ''curl'' 5000000 10 example_db)))
       = Reply 200 None (Some \<lparr>vd_views = 9, vd_counted = True\<rparr>)
   \<and> map lg_user_id (system_logs
         (snd (view_route (Some ''Bearer b'') ''10.0.0.9'' ''curl'' 6000000 10
            (snd (view_route (Some ''Bearer b'') ''10.0.0.1'' ''curl'' 5000000 10 example_db)))))
       = [None, None]"
proof -
  have a: "optionalAuth example_verify example_db (Some ''Bearer b'') = Some (req_user_of bob)"
    by (simp add: optionalAuth_def bearer_token_def example_verify_def example_defs)
  have v: "rv_views review10 = 7" by (simp add: review10_def)
  have one: "view_route (Some ''Bearer b'') ''10.0.0.1'' ''curl'' 5000000 10 example_db
      = (Reply 200 None (Some \<lparr>vd_views = 8, vd_counted = True\<rparr>),
         example_db\<lparr>reviews := [review10\<lparr>rv_views := 8\<rparr>, review11],
           system_logs := [\<lparr>lg_user_id = None, lg_action = ''view_review'',
             lg_target_type = ''review'', lg_target_id = 10, lg_ip_address = ''10.0.0.1'',
             lg_user_agent = ''curl'', lg_created_at = 5000000\<rparr>]\<rparr>)"
    by (simp add: view_route_def record_view_def review_by_id_def timeWindow_def Let_def
        example_defs)
  have two: "view_route (Some ''Bearer b'') ''10.0.0.9'' ''curl'' 6000000 10
        (example_db\<lparr>reviews := [review10\<lparr>rv_views := 8\<rparr>, review11],
           system_logs := [\<lparr>lg_user_id = None, lg_action = ''view_review'',
             lg_target_type = ''review'', lg_target_id = 10, lg_ip_address = ''10.0.0.1'',
             lg_user_agent = ''curl'', lg_created_at = 5000000\<rparr>]\<rparr>)
      = (Reply 200 None (Some \<lparr>vd_views = 9, vd_counted = True\<rparr>),
         example_db\<lparr>reviews := [review10\<lparr>rv_views := 9\<rparr>, review11],
           system_logs := [\<lparr>lg_user_id = None, lg_action = ''view_review'',
             lg_target_type = ''review'', lg_target_id = 10, lg_ip_address = ''10.0.0.1'',
             lg_user_agent = ''curl'', lg_created_at = 5000000\<rparr>,
            \<lparr>lg_user_id = None, lg_action = ''view_review'',
             lg_target_type = ''review'', lg_target_id = 10, lg_ip_address = ''10.0.0.9'',
             lg_user_agent = ''curl'', lg_created_at = 6000000\<rparr>]\<rparr>)"
    by (simp add: view_route_def record_view_def review_by_id_def timeWindow_def Let_def
        example_defs)
  show ?thesis unfolding one snd_conv fst_conv two by (simp add: a v)
qed

text \<open>
  The handler itself, given the \<^verbatim>\<open>req.user\<close> that a middleware would set, does what C6 says:
  a logged view of the same review inside the trailing 30 minutes, by the same user when
  the request has one and from the same IP address otherwise, leaves the counter and
  the log as they are; otherwise \<^verbatim>\<open>views\<close> grows by one and one event is logged.
\<close>

lemma record_view_dedup:
  assumes "review_by_id d rid = Some r" and "rv_status r = Approved"
    and "map_option ru_userId user \<noteq> Some 0"
  shows "record_view user ip agent now rid d =
     (if list_ex (spec_prior_view (map_option ru_userId user) ip now rid) (system_logs d)
      then (Reply 200 None (Some \<lparr>vd_views = rv_views r, vd_counted = False\<rparr>), d)
      else (Reply 200 None (Some \<lparr>vd_views = rv_views r + 1, vd_counted = True\<rparr>),
            d\<lparr>reviews := map (\<lambda>x. if rv_id x = rid then x\<lparr>rv_views := rv_views x + 1\<rparr> else x)
                             (reviews d),
              system_logs := system_logs d @
                [\<lparr>lg_user_id = map_option ru_userId user, lg_action = ''view_review'',
                  lg_target_type = ''review'', lg_target_id = rid, lg_ip_address = ip,
                  lg_user_agent = agent, lg_created_at = now\<rparr>]\<rparr>))"
proof -
  from review_by_id_approved [OF assms(1,2)] have
    ex: "filter (\<lambda>x. rv_id x = rid \<and> rv_status x = Approved) (reviews d) \<noteq> []" by auto
  let ?f = "\<lambda>x. if rv_id x = rid then x\<lparr>rv_views := rv_views x + 1\<rparr> else x"
  have "review_by_id (d\<lparr>reviews := map ?f (reviews d)\<rparr>) rid = map_option ?f (review_by_id d rid)"
    by (rule review_by_id_map) simp
  moreover have "rv_id r = rid"
    using assms(1) by (rule review_by_id_SomeD)
  ultimately have up: "review_by_id (d\<lparr>reviews := map ?f (reviews d), system_logs := ls\<rparr>) rid
      = Some (r\<lparr>rv_views := rv_views r + 1\<rparr>)" for ls
    using assms(1) by (simp add: review_by_id_def)
  have key: "filter (\<lambda>l. k l \<and> lg_action l = ''view_review'' \<and> lg_target_id l = rid
                         \<and> lg_created_at l > now - timeWindow) ls = []
        \<longleftrightarrow> \<not> list_ex (\<lambda>l. lg_action l = ''view_review'' \<and> lg_target_id l = rid
                          \<and> now - 30 * 60 * 1000 < lg_created_at l \<and> k l) ls" for k ls
    by (auto simp: list_ex_filter timeWindow_def filter_empty_conv)
  show ?thesis
  proof (cases user)
    case None
    then show ?thesis
      using ex assms(1) up
      by (simp add: record_view_def Let_def key spec_prior_view_def [abs_def])
  next
    case (Some u)
    with assms(3) have "ru_userId u \<noteq> 0" by simp
    then show ?thesis
      using ex assms(1) up Some
      by (simp add: record_view_def Let_def key spec_prior_view_def [abs_def])
  qed
qed

text \<open>Behind \<^verbatim>\<open>optionalAuth\<close> the second of the two views above is not counted.\<close>

lemma view_handler_behind_optional_auth:
  "fst (with_optional_auth example_verify (Some ''Bearer b'')
          (\<lambda>user. record_view user ''10.0.0.9'' ''curl'' 6000000 10)
          (snd (with_optional_auth example_verify (Some ''Bearer b'')
                  (\<lambda>user. record_view user ''10.0.0.1'' ''curl'' 5000000 10) example_db)))
     = Reply 200 None (Some \<lparr>vd_views = 8, vd_counted = False\<rparr>)"
  by (simp add: with_optional_auth_def optionalAuth_def bearer_token_def example_verify_def
      record_view_def review_by_id_def req_user_of_def timeWindow_def Let_def example_defs)

text \<open>
  C7, as amended. Every stored comment has a NULL \<^verbatim>\<open>parent_id\<close> or the \<^verbatim>\<open>parent_id\<close> of a
  stored comment of the same review, and comment creation, reply and comment deletion keep
  it so. The reply operation attaches a reply to every approved comment of an approved
  review, whether that comment is top-level or itself a reply: for a text that is not
  blank and has at most 1000 code units it answers 201 and stores the reply with the id
  of that comment as \<^verbatim>\<open>parent_id\<close> and with the \<^verbatim>\<open>review_id\<close> of that comment. A reply is
  attached to nothing else: a 201 means a stored approved comment with the requested id.
\<close>

theorem replies_attach_to_any_stored_comment:
  assumes "parents_stored d"
  shows "parents_stored (snd (create_comment u rid content d))
       \<and> parents_stored (snd (reply_comment u p content d))
       \<and> parents_stored (snd (delete_comment user cid d))
       \<and> (comment_by_id d p = Some parent \<and> cm_status parent = CApproved
            \<and> review_by_id d (cm_review_id parent) = Some r \<and> rv_status r = Approved
            \<and> content = Some c \<and> js_trim c \<noteq> [] \<and> length c \<le> 1000
          \<longrightarrow> http_status (fst (reply_comment u p content d)) = 201
              \<and> review_comments (snd (reply_comment u p content d))
                  = review_comments d @
                      [\<lparr>cm_id = next_comment_id d, cm_review_id = cm_review_id parent,
                        cm_user_id = u, cm_parent_id = Some p, cm_content = js_trim c,
                        cm_status = CApproved\<rparr>])
       \<and> (http_status (fst (reply_comment u p content d)) = 201 \<longrightarrow>
            (\<exists>parent new. parent \<in> set (review_comments d) \<and> cm_id parent = p
               \<and> cm_status parent = CApproved
               \<and> review_comments (snd (reply_comment u p content d)) = review_comments d @ [new]
               \<and> cm_parent_id new = Some p \<and> cm_review_id new = cm_review_id parent))"
proof -
  have attach: "http_status (fst (reply_comment u p content d)) = 201
              \<and> review_comments (snd (reply_comment u p content d))
                  = review_comments d @
                      [\<lparr>cm_id = next_comment_id d, cm_review_id = cm_review_id parent,
                        cm_user_id = u, cm_parent_id = Some p, cm_content = js_trim c,
                        cm_status = CApproved\<rparr>]"
    if h: "comment_by_id d p = Some parent" "cm_status parent = CApproved"
      "review_by_id d (cm_review_id parent) = Some r" "rv_status r = Approved"
      "content = Some c" "js_trim c \<noteq> []" "length c \<le> 1000"
  proof -
    from h(6) have ne: "c \<noteq> []" by (auto simp: js_trim_def)
    from parent_with_review_found [OF h(1,2,3)] h(4)
    have pw: "parent_with_review d p = Some (cm_review_id parent, Approved)" by simp
    show ?thesis
      using h(5,6,7) ne pw
      by (simp add: reply_comment_def case_prod_beta review_comments_insert_comment)
  qed
  have last: "\<exists>parent new. parent \<in> set (review_comments d) \<and> cm_id parent = p
               \<and> cm_status parent = CApproved
               \<and> review_comments (snd (reply_comment u p content d)) = review_comments d @ [new]
               \<and> cm_parent_id new = Some p \<and> cm_review_id new = cm_review_id parent"
    if ok: "http_status (fst (reply_comment u p content d)) = 201"
  proof -
    from ok obtain c rid where c: "content = Some c" "c \<noteq> []" "js_trim c \<noteq> []" "\<not> length c > 1000"
      and pw: "parent_with_review d p = Some (rid, Approved)"
      by (auto simp: reply_comment_def case_prod_beta split: option.splits if_splits)
    from parent_with_review_SomeD [OF pw] obtain parent where
      "parent \<in> set (review_comments d)" "cm_id parent = p" "cm_review_id parent = rid"
      "cm_status parent = CApproved"
      by (auto simp: list_ex_iff)
    then show ?thesis
      using c pw
      by (auto simp: reply_comment_def case_prod_beta review_comments_insert_comment)
  qed
  show ?thesis
    using parents_stored_create_comment [OF assms] parents_stored_reply_comment [OF assms]
      parents_stored_delete_comment [OF assms] attach last by blast
qed

theorem replies_attach_to_any_stored_comment_witness:
  "parents_stored example_db
   \<and> comment_by_id example_db 2 = Some comment2 \<and> cm_parent_id comment2 = Some 1
   \<and> cm_status comment2 = CApproved
   \<and> review_by_id example_db (cm_review_id comment2) = Some review10
   \<and> rv_status review10 = Approved \<and> u_status bob = Active
   \<and> js_trim [32, 111, 107, 160] = [111, 107]
   \<and> parents_stored (snd (reply_comment 2 2 (Some [32, 111, 107, 160]) example_db))
   \<and> http_status (fst (reply_comment 2 2 (Some [32, 111, 107, 160]) example_db)) = 201
   \<and> review_comments (snd (reply_comment 2 2 (Some [32, 111, 107, 160]) example_db))
       = [comment1, comment2,
          \<lparr>cm_id = 3, cm_review_id = 10, cm_user_id = 2, cm_parent_id = Some 2,
           cm_content = [111, 107], cm_status = CApproved\<rparr>]"
proof -
  have h: "parents_stored example_db"
    by (simp add: parents_stored_def example_defs)
  have c2: "comment_by_id example_db 2 = Some comment2"
    by (simp add: comment_by_id_def example_defs)
  have p2: "cm_parent_id comment2 = Some 1" "cm_status comment2 = CApproved"
    "cm_review_id comment2 = 10"
    by (simp_all add: comment2_def)
  have r: "review_by_id example_db (cm_review_id comment2) = Some review10"
    by (simp add: review_by_id_def example_defs)
  have st: "rv_status review10 = Approved" "u_status bob = Active"
    by (simp_all add: review10_def bob_def)
  have tr: "js_trim [32, 111, 107, 160] = [111, 107]"
    by (simp add: js_trim_def is_space_def)
  have ln: "length [32, 111, 107, 160::nat] \<le> 1000" by simp
  have db: "review_comments example_db = [comment1, comment2]" "next_comment_id example_db = 3"
    by (simp_all add: example_db_def)
  note t = replies_attach_to_any_stored_comment [OF h, where u = 2 and p = 2
      and content = "Some [32, 111, 107, 160]" and parent = comment2 and r = review10
      and c = "[32, 111, 107, 160]"]
  from t have keep: "parents_stored (snd (reply_comment 2 2 (Some [32, 111, 107, 160]) example_db))"
    by blast
  from t c2 p2(2) r st(1) tr
  have att: "http_status (fst (reply_comment 2 2 (Some [32, 111, 107, 160]) example_db)) = 201
     \<and> review_comments (snd (reply_comment 2 2 (Some [32, 111, 107, 160]) example_db))
       = review_comments example_db @
           [\<lparr>cm_id = next_comment_id example_db, cm_review_id = cm_review_id comment2,
             cm_user_id = 2, cm_parent_id = Some 2,
             cm_content = js_trim [32, 111, 107, 160], cm_status = CApproved\<rparr>]"
    using ln by simp
  show ?thesis
    using h c2 p2 r st tr keep att by (simp add: db)
qed

text \<open>
  C7 as stated fails: comment 2 is a reply to comment 1, and the reply operation of the
  active user 2 on comment 2 answers 201 and stores comment 3 with \<^verbatim>\<open>parent_id = 2\<close>, a
  chain of length three.
\<close>

theorem reply_to_reply_counterexample:
  "comment_by_id example_db 2 = Some comment2 \<and> cm_parent_id comment2 = Some 1
   \<and> comment_by_id example_db 1 = Some comment1 \<and> cm_parent_id comment1 = None
   \<and> user_by_id example_db 2 = Some bob \<and> u_status bob = Active
   \<and> http_status (fst (reply_comment 2 2 (Some [111, 107]) example_db)) = 201
   \<and> review_comments (snd (reply_comment 2 2 (Some [111, 107]) example_db))
       = [comment1, comment2,
          \<lparr>cm_id = 3, cm_review_id = 10, cm_user_id = 2, cm_parent_id = Some 2,
           cm_content = [111, 107], cm_status = CApproved\<rparr>]"
  by (simp add: comment_by_id_def user_by_id_def reply_comment_def parent_with_review_def
      insert_comment_def fire_def installer_creates_no_trigger mysql_accepts_def
      js_trim_def is_space_def Let_def example_defs)

text \<open>
  C8. For every stored review and every authenticated actor who is neither its author nor
  an admin, \<^verbatim>\<open>PUT /reviews/:id\<close> answers 403 and leaves the database as it was; the reply
  is 403 exactly when the actor is neither the author nor an admin.
\<close>

theorem update_review_needs_owner_or_admin:
  assumes "review_by_id d rid = Some r"
  shows "(rv_user_id r \<noteq> ru_userId user \<and> ru_role user \<noteq> RoleAdmin
            \<longrightarrow> update_review user rid body d = (Reply 403 None None, d))
       \<and> (http_status (fst (update_review user rid body d)) = 403
            \<longleftrightarrow> rv_user_id r \<noteq> ru_userId user \<and> ru_role user \<noteq> RoleAdmin)"
  using assms by (simp add: update_review_def Let_def)

theorem update_review_needs_owner_or_admin_witness:
  "review_by_id example_db 10 = Some review10
   \<and> update_review (req_user_of bob) 10 \<lparr>up_title = Some ''x'', up_content = None, up_rating = Some 1\<rparr>
        example_db = (Reply 403 None None, example_db)
   \<and> http_status (fst (update_review (req_user_of alice) 10
        \<lparr>up_title = Some ''x'', up_content = None, up_rating = Some 1\<rparr> example_db)) \<noteq> 403"
proof -
  have h: "review_by_id example_db 10 = Some review10"
    by (simp add: review_by_id_def example_defs)
  have b: "rv_user_id review10 \<noteq> ru_userId (req_user_of bob) \<and> ru_role (req_user_of bob) \<noteq> RoleAdmin"
    by (simp add: req_user_of_def example_defs)
  have a: "rv_user_id review10 = ru_userId (req_user_of alice)"
    by (simp add: req_user_of_def example_defs)
  show ?thesis
    using update_review_needs_owner_or_admin [OF h, of "req_user_of bob"]
      update_review_needs_owner_or_admin [OF h, of "req_user_of alice"] h a b by simp
qed

text \<open>
  C9. The author of a comment, or an admin, deletes a comment. With at least one reply
  row the reply is 409 with the number of replies and the database is unchanged, so the
  comment row is still there; the deletion succeeds (200, row gone) exactly when the
  comment has no reply.
\<close>

theorem delete_comment_blocked_by_replies:
  assumes "comment_by_id d cid = Some c"
    and "cm_user_id c = ru_userId user \<or> ru_role user = RoleAdmin"
  shows "(0 < count_replies d cid
            \<longrightarrow> delete_comment user cid d = (Reply 409 None (Some (count_replies d cid)), d)
                \<and> comment_by_id (snd (delete_comment user cid d)) cid = Some c)
       \<and> (http_status (fst (delete_comment user cid d)) = 200 \<longleftrightarrow> count_replies d cid = 0)
       \<and> (count_replies d cid = 0
            \<longrightarrow> comment_by_id (snd (delete_comment user cid d)) cid = None)"
proof -
  have gone: "comment_by_id (delete_comment_rows cid d) cid = None"
    by (simp add: comment_by_id_def review_comments_delete_comment_rows)
  show ?thesis
    using assms gone by (auto simp: delete_comment_def)
qed

theorem delete_comment_blocked_by_replies_witness:
  "comment_by_id example_db 1 = Some comment1
   \<and> (cm_user_id comment1 = ru_userId (req_user_of bob) \<or> ru_role (req_user_of bob) = RoleAdmin)
   \<and> 0 < count_replies example_db 1
   \<and> delete_comment (req_user_of bob) 1 example_db = (Reply 409 None (Some 1), example_db)"
proof -
  have h1: "comment_by_id example_db 1 = Some comment1"
    by (simp add: comment_by_id_def example_defs)
  have h2: "cm_user_id comment1 = ru_userId (req_user_of bob) \<or> ru_role (req_user_of bob) = RoleAdmin"
    by (simp add: req_user_of_def example_defs)
  have n: "count_replies example_db 1 = 1"
    by (simp add: count_replies_def example_defs)
  show ?thesis
    using delete_comment_blocked_by_replies [OF h1 h2] h1 h2 n by simp
qed

text \<open>
  C10. A request bears a token that the verifier accepts for a user id whose stored row
  is not \<^verbatim>\<open>active\<close>. Every endpoint guarded by \<^verbatim>\<open>authenticateToken\<close> answers 403
  \<^verbatim>\<open>ACCOUNT_DISABLED\<close> and leaves the database as it was, whatever its handler is; every
  endpoint behind \<^verbatim>\<open>optionalAuth\<close> runs its handler with \<^verbatim>\<open>req.user = null\<close>.
\<close>

theorem disabled_account_is_locked_out:
  assumes "bearer_token authHeader = Some token" and "verify token = Decoded uid"
    and "user_by_id d uid = Some user"
    and "\<forall>u \<in> set (users d). u_id u = uid \<longrightarrow> u_status u \<noteq> Active"
  shows "guarded verify authHeader handler d = (Reply 403 (Some ''ACCOUNT_DISABLED'') None, d)
       \<and> optionalAuth verify d authHeader = None
       \<and> with_optional_auth verify authHeader handler' d = handler' None d"
proof -
  from assms(3) obtain rest where "filter (\<lambda>u. u_id u = uid) (users d) = user # rest"
    by (auto simp: user_by_id_def split: list.splits)
  then have "user \<in> set (filter (\<lambda>u. u_id u = uid) (users d))" by simp
  with assms(4) have na: "u_status user \<noteq> Active" by simp
  have none: "filter (\<lambda>u. u_id u = uid \<and> u_status u = Active) (users d) = []"
    using assms(4) by (simp add: filter_empty_conv)
  show ?thesis
    using assms(1,2,3) na none
    by (simp add: guarded_def authenticateToken_def optionalAuth_def with_optional_auth_def)
qed

theorem disabled_account_is_locked_out_witness:
  "bearer_token (Some ''Bearer c'') = Some ''c'' \<and> example_verify ''c'' = Decoded 3
   \<and> user_by_id example_db 3 = Some carol
   \<and> filter (\<lambda>u. u_id u = 3) (users example_db) = [carol] \<and> u_status carol = Banned
   \<and> guarded example_verify (Some ''Bearer c'') (\<lambda>user. like_review (ru_userId user) 10) example_db
       = (Reply 403 (Some ''ACCOUNT_DISABLED'') None, example_db)
   \<and> optionalAuth example_verify example_db (Some ''Bearer c'') = None
   \<and> with_optional_auth example_verify (Some ''Bearer c'') (\<lambda>viewer d. (get_profile viewer 1 d, d))
         example_db = (get_profile None 1 example_db, example_db)"
proof -
  have h1: "bearer_token (Some ''Bearer c'') = Some ''c''" by (simp add: bearer_token_def)
  have h2: "example_verify ''c'' = Decoded 3" by (simp add: example_verify_def)
  have h3: "user_by_id example_db 3 = Some carol" by (simp add: user_by_id_def example_defs)
  have h4: "\<forall>u \<in> set (users example_db). u_id u = 3 \<longrightarrow> u_status u \<noteq> Active"
    by (simp add: example_defs)
  have h5: "filter (\<lambda>u. u_id u = 3) (users example_db) = [carol] \<and> u_status carol = Banned"
    by (simp add: example_defs)
  show ?thesis
    using disabled_account_is_locked_out [where verify = example_verify and token = "''c''"
        and handler = "\<lambda>user. like_review (ru_userId user) 10"
        and handler' = "\<lambda>viewer d. (get_profile viewer 1 d, d)", OF h1 h2 h3 h4]
      h1 h2 h3 h5 by simp
qed

end
